theory Spec2Isabelle
  imports Main
begin

section \<open>Cron controllers of Oppia: \<open>core/controllers/cron.py\<close>\<close>

text \<open>
  The module holds three things: a handler that mails the administrator about stuck
  MapReduce jobs, a MapReduce job that deletes old auxiliary entities, and a handler that
  cleans up finished or old pipelines. Times are milliseconds since the epoch, modelled
  as \<open>int\<close>. The datastore, the pipeline library, the mail service and the log are
  collaborators outside the module: what the module reads from them is a field of an
  environment record, what it does to them is recorded in a state record that the
  functions return.
\<close>

subsection \<open>Constants\<close>

definition MAX_MAPREDUCE_METADATA_RETENTION_MSECS :: int where
  "MAX_MAPREDUCE_METADATA_RETENTION_MSECS = 2 * 24 * 60 * 60 * 1000"

definition MAPPER_PARAM_MAX_START_TIME_MSEC :: string where
  "MAPPER_PARAM_MAX_START_TIME_MSEC = ''max_start_time_msec''"

subsection \<open>Rendering with \<open>%s\<close>\<close>

text \<open>Python's \<open>'%s' % n\<close> for an integer: its decimal digits, with a sign when negative.\<close>

definition digit_char :: "nat \<Rightarrow> char" where
  "digit_char d = ''0123456789'' ! d"

fun str_nat :: "nat \<Rightarrow> string" where
  "str_nat n = (if n < 10 then [digit_char n] else str_nat (n div 10) @ [digit_char (n mod 10)])"

declare str_nat.simps [simp del]

definition str_int :: "int \<Rightarrow> string" where
  "str_int i = (if i < 0 then ''-'' @ str_nat (nat (- i)) else str_nat (nat i))"

definition newline :: string where
  "newline = [CHR 0x0A]"

subsection \<open>The decorator \<open>require_cron_or_superadmin\<close>\<close>

datatype error = UnauthorizedUserException string

record request =
  headers :: "string \<rightharpoonup> string"
  is_super_admin :: bool

definition require_cron_or_superadmin ::
  "(request \<Rightarrow> error + 'a) \<Rightarrow> request \<Rightarrow> error + 'a" where
  "require_cron_or_superadmin handler self =
     (if headers self ''X-AppEngine-Cron'' = None \<and> \<not> is_super_admin self
      then Inl (UnauthorizedUserException
                  ''You do not have the credentials to access this page.'')
      else handler self)"

subsection \<open>\<open>JobStatusMailerHandler\<close>\<close>

text \<open>
  A stuck job as \<open>jobs.get_stuck_jobs\<close> returns it. The handler only formats its
  fields with \<open>%s\<close>, so each field holds the text that \<open>%s\<close> renders;
  \<open>key_name\<close> is \<open>job.key().name()\<close>.
\<close>

record stuck_job =
  mapreduce_id :: string
  key_name :: string
  counters_map :: string
  retries :: string
  slice_retries :: string
  update_time :: string
  last_work_item :: string

text \<open>A call of \<open>email_services.send_mail_to_admin\<close>: recipient, subject, body.\<close>

type_synonym mail = "string \<times> string \<times> string"

definition TWENTY_FIVE_HOURS_IN_MSECS :: int where
  "TWENTY_FIVE_HOURS_IN_MSECS = 25 * 60 * 60 * 1000"

definition MAX_JOBS_TO_REPORT_ON :: nat where
  "MAX_JOBS_TO_REPORT_ON = 50"

definition separator_line :: string where
  "separator_line = ''-----------------------------------''"

text \<open>What one iteration of the loop over the failed jobs appends to the message.\<close>

definition job_detail :: "stuck_job \<Rightarrow> string" where
  "job_detail job =
     newline @ separator_line @ newline @
     ''Job with mapreduce ID '' @ mapreduce_id job @ '' (key name '' @ key_name job @
     '') failed. More info:'' @ newline @ newline @
     ''  counters_map: '' @ counters_map job @ newline @
     ''  shard_retries: '' @ retries job @ newline @
     ''  slice_retries: '' @ slice_retries job @ newline @
     ''  last_update_time: '' @ update_time job @ newline @
     ''  last_work_item: '' @ last_work_item job @ newline"

definition failure_header :: "nat \<Rightarrow> string" where
  "failure_header n =
     str_nat n @ '' jobs have failed in the past 25 hours. More information '' @
     ''(about at most '' @ str_nat MAX_JOBS_TO_REPORT_ON @
     '' jobs; to see more, please check the logs):''"

text \<open>
  The body of \<open>JobStatusMailerHandler.get\<close>. \<open>get_stuck_jobs\<close> is
  \<open>jobs.get_stuck_jobs\<close>, \<open>admin\<close> is \<open>feconf.ADMIN_EMAIL_ADDRESS\<close>, and the
  list of mails is the mail service's outbox, returned with the new mail appended.
\<close>

definition mail_job_status ::
  "(int \<Rightarrow> stuck_job list) \<Rightarrow> string \<Rightarrow> mail list \<Rightarrow> mail list" where
  "mail_job_status get_stuck_jobs admin outbox =
     (let failed_jobs = get_stuck_jobs TWENTY_FIVE_HOURS_IN_MSECS;
          (email_subject, email_message) =
            (if failed_jobs \<noteq> [] then
               (''MapReduce failure alert'',
                foldl (\<lambda>msg job. msg @ job_detail job)
                  (failure_header (length failed_jobs))
                  (take MAX_JOBS_TO_REPORT_ON failed_jobs))
             else
               (''MapReduce status report'', ''All MapReduce jobs are running fine.''))
      in outbox @ [(admin, email_subject, email_message)])"

definition JobStatusMailerHandler_get ::
  "(int \<Rightarrow> stuck_job list) \<Rightarrow> string \<Rightarrow> mail list \<Rightarrow> request \<Rightarrow> error + mail list" where
  "JobStatusMailerHandler_get get_stuck_jobs admin outbox =
     require_cron_or_superadmin (\<lambda>self. Inr (mail_job_status get_stuck_jobs admin outbox))"

subsection \<open>\<open>_JobCleanupManager\<close>\<close>

text \<open>
  The two entity classes the job maps over. \<open>result_status\<close> is unset (\<open>None\<close>)
  while a run is active; the time field holds \<open>utils.get_time_in_millisecs\<close> of the
  entity's \<open>start_time\<close> or \<open>update_time\<close>.
\<close>

datatype item =
  MapreduceState "string option" int
  | ShardState "string option" int

text \<open>What one call of the mapper does: the entities it deletes and the pairs it yields.\<close>

record map_result =
  deleted :: "item list"
  yielded :: "(string \<times> int) list"

definition JobCleanupManager_map :: "int \<Rightarrow> item \<Rightarrow> map_result" where
  "JobCleanupManager_map max_start_time_msec it =
     (let r0 = \<lparr>deleted = [], yielded = []\<rparr>;
          r1 = (case it of
                  MapreduceState result_status start_ms \<Rightarrow>
                    (if result_status = Some ''success'' \<and> start_ms < max_start_time_msec
                     then r0\<lparr>deleted := deleted r0 @ [it],
                             yielded := yielded r0 @ [(''mr_state_deleted'', 1)]\<rparr>
                     else r0\<lparr>yielded := yielded r0 @ [(''mr_state_remaining'', 1)]\<rparr>)
                | ShardState _ _ \<Rightarrow> r0);
          r2 = (case it of
                  ShardState result_status update_ms \<Rightarrow>
                    (if result_status = Some ''success'' \<and> update_ms < max_start_time_msec
                     then r1\<lparr>deleted := deleted r1 @ [it],
                             yielded := yielded r1 @ [(''shard_state_deleted'', 1)]\<rparr>
                     else r1\<lparr>yielded := yielded r1 @ [(''mr_state_remaining'', 1)]\<rparr>)
                | MapreduceState _ _ \<Rightarrow> r1)
      in r2)"

definition endswith :: "string \<Rightarrow> string \<Rightarrow> bool" where
  "endswith s suffix = (length suffix \<le> length s \<and> drop (length s - length suffix) s = suffix)"

text \<open>
  The reducer logs one line per key. \<open>vals\<close> are the stringified values after
  \<open>ast.literal_eval\<close>; the result is the text handed to \<open>logging.warning\<close>.
\<close>

definition JobCleanupManager_reduce :: "string \<Rightarrow> int list \<Rightarrow> string" where
  "JobCleanupManager_reduce k vals =
     (if endswith k ''_deleted''
      then ''Delete count: '' @ str_int (sum_list vals) @ '' entities ('' @ k @ '')''
      else ''Entities remaining count: '' @ str_int (sum_list vals) @ '' entities ('' @ k @ '')'')"

subsection \<open>\<open>CronMapreduceCleanupHandler\<close>\<close>

text \<open>
  A job model as the handler uses it: the time it started, the cleaned-up flag and the
  metadata dictionary. \<open>job_id\<close> is the entity's datastore key, under which \<open>put()\<close>
  writes it.
\<close>

record JobModel =
  job_id :: string
  time_started_msec :: int
  has_been_cleaned_up :: bool
  metadata :: "string \<rightharpoonup> string"

text \<open>
  An entry of \<open>pipeline.get_root_list()['pipelines']\<close>. The pipeline library always
  gives the id, the status and the two attempt counts; \<open>startTimeMs\<close> is present only
  once the pipeline has started.
\<close>

record pline =
  pipelineId :: string
  status :: string
  currentAttempt :: int
  maxAttempts :: int
  startTimeMs :: "int option"

text \<open>
  What one pass reads from outside: the clock, the job models in the datastore, the root
  pipelines, whether \<open>pipeline.Pipeline.from_id\<close> finds a pipeline for an id, and
  \<open>JobModel.do_unfinished_jobs_exist\<close>.
\<close>

record env =
  current_time_in_millisecs :: int
  job_models :: "JobModel list"
  root_list :: "pline list"
  from_id :: "string \<Rightarrow> bool"
  do_unfinished_jobs_exist :: "string \<Rightarrow> bool"

text \<open>
  What one pass does: the datastore after its \<open>put()\<close> calls, the entities put (in
  order), the ids of the pipelines whose \<open>cleanup()\<close> was called (in order), the local
  counter \<open>num_cleaned\<close>, the lines handed to \<open>logging.warning\<close>, and the jobs enqueued
  with their additional parameters.
\<close>

record reap_state =
  datastore :: "JobModel list"
  puts :: "JobModel list"
  cleanups :: "string list"
  num_cleaned :: nat
  warnings :: "string list"
  enqueued :: "(string \<times> (string \<times> int) list) list"

text \<open>
  Modelled from the spec: \<open>JobModel.get_recent_jobs\<close> is defined in the storage layer,
  outside this module. The spec has it fetch up to a bounded count of job records whose
  start time falls within \<open>[now - maxAgeMsec, now]\<close>.
\<close>

definition get_recent_jobs :: "JobModel list \<Rightarrow> int \<Rightarrow> nat \<Rightarrow> int \<Rightarrow> JobModel list" where
  "get_recent_jobs store now limit recency_msec =
     take limit
       (filter (\<lambda>j. now - recency_msec \<le> time_started_msec j \<and> time_started_msec j \<le> now)
          store)"

text \<open>The datastore's \<open>put()\<close>: the entity replaces the one stored under its key.\<close>

definition put :: "JobModel \<Rightarrow> JobModel list \<Rightarrow> JobModel list" where
  "put j store =
     (if job_id j \<in> set (map job_id store)
      then map (\<lambda>x. if job_id x = job_id j then j else x) store
      else store @ [j])"

text \<open>The body of the loop over \<open>job_instances\<close>.\<close>

definition add_job_instance ::
  "int \<Rightarrow> (string \<rightharpoonup> JobModel) \<Rightarrow> JobModel \<Rightarrow> (string \<rightharpoonup> JobModel)" where
  "add_job_instance max_start_time_msec pipeline_id_to_job_instance job_instance =
     (if time_started_msec job_instance < max_start_time_msec
         \<and> \<not> has_been_cleaned_up job_instance
      then (case metadata job_instance ''root_pipeline_id'' of
              Some pipeline_id \<Rightarrow> pipeline_id_to_job_instance(pipeline_id \<mapsto> job_instance)
            | None \<Rightarrow> pipeline_id_to_job_instance)
      else pipeline_id_to_job_instance)"

definition pipeline_id_to_job_instance ::
  "int \<Rightarrow> JobModel list \<Rightarrow> (string \<rightharpoonup> JobModel)" where
  "pipeline_id_to_job_instance max_start_time_msec job_instances =
     foldl (add_job_instance max_start_time_msec) Map.empty job_instances"

definition job_definitely_terminated :: "pline \<Rightarrow> bool" where
  "job_definitely_terminated pl =
     (status pl = ''done'' \<or> status pl = ''aborted'' \<or> currentAttempt pl > maxAttempts pl)"

definition have_start_time :: "pline \<Rightarrow> bool" where
  "have_start_time pl = (startTimeMs pl \<noteq> None)"

definition job_started_too_long_ago :: "int \<Rightarrow> pline \<Rightarrow> bool" where
  "job_started_too_long_ago max_start_time_msec pl =
     (case startTimeMs pl of None \<Rightarrow> False | Some t \<Rightarrow> t < max_start_time_msec)"

text \<open>The condition of the \<open>if\<close> in the loop over the root pipelines.\<close>

definition cleanup_due :: "int \<Rightarrow> pline \<Rightarrow> bool" where
  "cleanup_due max_start_time_msec pl =
     (job_started_too_long_ago max_start_time_msec pl
      \<or> (\<not> have_start_time pl \<and> job_definitely_terminated pl))"

definition mark_cleaned_up :: "JobModel \<Rightarrow> JobModel" where
  "mark_cleaned_up job_instance = job_instance\<lparr>has_been_cleaned_up := True\<rparr>"

text \<open>The body of the loop over the root pipelines.\<close>

definition clean_pipeline ::
  "(string \<Rightarrow> bool) \<Rightarrow> (string \<rightharpoonup> JobModel) \<Rightarrow> int \<Rightarrow> reap_state \<Rightarrow> pline \<Rightarrow> reap_state" where
  "clean_pipeline resolves pid_to_job max_start_time_msec st pl =
     (let pipeline_id = pipelineId pl in
      if cleanup_due max_start_time_msec pl then
        (let st1 = (case pid_to_job pipeline_id of
                      Some job_instance \<Rightarrow>
                        st\<lparr>datastore := put (mark_cleaned_up job_instance) (datastore st),
                           puts := puts st @ [mark_cleaned_up job_instance]\<rparr>
                    | None \<Rightarrow> st)
         in if resolves pipeline_id
            then st1\<lparr>cleanups := cleanups st1 @ [pipeline_id],
                     num_cleaned := num_cleaned st1 + 1\<rparr>
            else st1)
      else st)"

text \<open>The mapping that a pass builds before it looks at the pipelines.\<close>

definition job_mapping :: "env \<Rightarrow> int \<Rightarrow> (string \<rightharpoonup> JobModel)" where
  "job_mapping e recency_msec =
     (let min_age_msec = recency_msec;
          max_age_msec = recency_msec + 7 * 24 * 60 * 60 * 1000;
          max_start_time_msec = current_time_in_millisecs e - min_age_msec
      in pipeline_id_to_job_instance max_start_time_msec
           (get_recent_jobs (job_models e) (current_time_in_millisecs e) 1000 max_age_msec))"

text \<open>\<open>CronMapreduceCleanupHandler._clean_mapreduce\<close>.\<close>

definition clean_mapreduce :: "env \<Rightarrow> int \<Rightarrow> reap_state" where
  "clean_mapreduce e recency_msec =
     (let min_age_msec = recency_msec;
          max_start_time_msec = current_time_in_millisecs e - min_age_msec;
          st0 = \<lparr>datastore = job_models e, puts = [], cleanups = [], num_cleaned = 0,
                 warnings = [], enqueued = []\<rparr>;
          st1 = foldl (clean_pipeline (from_id e) (job_mapping e recency_msec)
                         max_start_time_msec) st0 (root_list e);
          st2 = st1\<lparr>warnings :=
                       warnings st1 @ [str_nat (num_cleaned st1) @ '' MR jobs cleaned up.'']\<rparr>
      in if do_unfinished_jobs_exist e ''_JobCleanupManager''
         then st2\<lparr>warnings := warnings st2 @ [''A previous cleanup job is still running.'']\<rparr>
         else st2\<lparr>enqueued := enqueued st2 @
                      [(''_JobCleanupManager'',
                        [(MAPPER_PARAM_MAX_START_TIME_MSEC, max_start_time_msec)])],
                   warnings := warnings st2 @
                      [''Deletion jobs for auxiliary entities kicked off.'']\<rparr>)"

text \<open>\<open>CronMapreduceCleanupHandler.get\<close>: the method carries no decorator.\<close>

definition CronMapreduceCleanupHandler_get :: "env \<Rightarrow> request \<Rightarrow> error + reap_state" where
  "CronMapreduceCleanupHandler_get e self =
     Inr (clean_mapreduce e MAX_MAPREDUCE_METADATA_RETENTION_MSECS)"

subsection \<open>An invariant of the pass, and sample data\<close>

text \<open>
  Every entity the pass has put carries the flag, and so does every stored entity whose
  key is that of an entity the pass has put.
\<close>

definition flags_kept :: "reap_state \<Rightarrow> bool" where
  "flags_kept st \<longleftrightarrow>
     (\<forall>j \<in> set (puts st). has_been_cleaned_up j) \<and>
     (\<forall>x \<in> set (datastore st). job_id x \<in> job_id ` set (puts st) \<longrightarrow> has_been_cleaned_up x)"

text \<open>
  Sample inputs for the examples below: a job that started 700000 seconds before the
  sample clock, a pipeline on its first attempt of three, and an environment with two
  such jobs, correlated with the pipelines \<open>p1\<close> and \<open>p2\<close>.
\<close>

definition sample_job :: "string \<Rightarrow> string \<Rightarrow> JobModel" where
  "sample_job jid pid =
     \<lparr>job_id = jid, time_started_msec = 300000000, has_been_cleaned_up = False,
      metadata = [''root_pipeline_id'' \<mapsto> pid]\<rparr>"

definition sample_pline :: "string \<Rightarrow> string \<Rightarrow> int option \<Rightarrow> pline" where
  "sample_pline pid st started =
     \<lparr>pipelineId = pid, status = st, currentAttempt = 1, maxAttempts = 3,
      startTimeMs = started\<rparr>"

definition sample_env :: "pline list \<Rightarrow> (string \<Rightarrow> bool) \<Rightarrow> env" where
  "sample_env plines resolves =
     \<lparr>current_time_in_millisecs = 1000000000,
      job_models = [sample_job ''j1'' ''p1'', sample_job ''j2'' ''p2''],
      root_list = plines, from_id = resolves, do_unfinished_jobs_exist = (\<lambda>_. False)\<rparr>"

definition sample_stuck_job :: stuck_job where
  "sample_stuck_job =
     \<lparr>mapreduce_id = ''1581234567'', key_name = ''job-1'', counters_map = ''{}'',
      retries = ''0'', slice_retries = ''11'', update_time = ''2016-01-01 00:00:00'',
      last_work_item = ''None''\<rparr>"

section \<open>Properties\<close>

subsection \<open>The loops in closed form\<close>

lemma foldl_append_concat:
  "foldl (\<lambda>msg x. msg @ f x) acc xs = acc @ concat (map f xs)"
  by (induction xs arbitrary: acc) simp_all

lemma clean_pipeline_log [simp]:
  "warnings (clean_pipeline rs m t st pl) = warnings st"
  "enqueued (clean_pipeline rs m t st pl) = enqueued st"
  by (simp_all add: clean_pipeline_def Let_def split: option.splits)

lemma loop_log [simp]:
  "warnings (foldl (clean_pipeline rs m t) st ps) = warnings st"
  "enqueued (foldl (clean_pipeline rs m t) st ps) = enqueued st"
  by (induction ps arbitrary: st) simp_all

lemma clean_pipeline_cleanups:
  "cleanups (clean_pipeline rs m t st pl) =
     cleanups st @ (if cleanup_due t pl \<and> rs (pipelineId pl) then [pipelineId pl] else [])"
  by (simp add: clean_pipeline_def Let_def split: option.splits)

lemma clean_pipeline_num_cleaned:
  "num_cleaned (clean_pipeline rs m t st pl) =
     num_cleaned st + (if cleanup_due t pl \<and> rs (pipelineId pl) then 1 else 0)"
  by (simp add: clean_pipeline_def Let_def split: option.splits)

lemma clean_pipeline_puts:
  "puts (clean_pipeline rs m t st pl) =
     puts st @ (if cleanup_due t pl
                then (case m (pipelineId pl) of Some j \<Rightarrow> [mark_cleaned_up j] | None \<Rightarrow> [])
                else [])"
  by (simp add: clean_pipeline_def Let_def split: option.splits)

lemma loop_cleanups:
  "cleanups (foldl (clean_pipeline rs m t) st ps) =
     cleanups st @ map pipelineId (filter (\<lambda>pl. cleanup_due t pl \<and> rs (pipelineId pl)) ps)"
  by (induction ps arbitrary: st) (simp_all add: clean_pipeline_cleanups)

lemma loop_num_cleaned:
  "num_cleaned (foldl (clean_pipeline rs m t) st ps) =
     num_cleaned st + length (filter (\<lambda>pl. cleanup_due t pl \<and> rs (pipelineId pl)) ps)"
  by (induction ps arbitrary: st) (simp_all add: clean_pipeline_num_cleaned)

lemma loop_puts:
  "puts (foldl (clean_pipeline rs m t) st ps) =
     puts st @ map mark_cleaned_up
       (List.map_filter (\<lambda>pl. if cleanup_due t pl then m (pipelineId pl) else None) ps)"
  by (induction ps arbitrary: st)
     (simp_all add: clean_pipeline_puts List.map_filter_simps split: option.splits)

lemma mapping_fold:
  "foldl (add_job_instance t) m0 js pid = Some j \<Longrightarrow>
     m0 pid = Some j \<or>
     (j \<in> set js \<and> \<not> has_been_cleaned_up j \<and> time_started_msec j < t
        \<and> metadata j ''root_pipeline_id'' = Some pid)"
proof (induction js arbitrary: m0)
  case Nil
  then show ?case by simp
next
  case (Cons a js)
  from Cons.IH [OF Cons.prems [simplified]]
  show ?case
    by (auto simp: add_job_instance_def split: if_splits option.splits)
qed

lemma mapping_sound:
  "pipeline_id_to_job_instance t js pid = Some j \<Longrightarrow>
     j \<in> set js \<and> \<not> has_been_cleaned_up j \<and> time_started_msec j < t
        \<and> metadata j ''root_pipeline_id'' = Some pid"
  using mapping_fold [of t Map.empty js pid j]
  by (simp add: pipeline_id_to_job_instance_def)

lemma get_recent_jobs_subset: "set (get_recent_jobs store now limit r) \<subseteq> set store"
  unfolding get_recent_jobs_def using set_take_subset [of limit] by fastforce

lemma job_mapping_sound:
  "job_mapping e r pid = Some j \<Longrightarrow>
     j \<in> set (job_models e) \<and> \<not> has_been_cleaned_up j
       \<and> time_started_msec j < current_time_in_millisecs e - r
       \<and> metadata j ''root_pipeline_id'' = Some pid"
  using mapping_sound [of "current_time_in_millisecs e - r" _ pid j] get_recent_jobs_subset
  by (fastforce simp: job_mapping_def Let_def)


lemma put_flagged:
  assumes "x \<in> set (put j store)"
  shows "x = j \<or> (x \<in> set store \<and> job_id x \<noteq> job_id j)"
proof (cases "job_id j \<in> set (map job_id store)")
  case True
  with assms obtain y where "y \<in> set store" and "x = (if job_id y = job_id j then j else y)"
    by (auto simp: put_def)
  then show ?thesis by (cases "job_id y = job_id j") simp_all
next
  case False
  with assms have "x = j \<or> x \<in> set store" by (auto simp: put_def)
  moreover have "job_id y \<noteq> job_id j" if "y \<in> set store" for y
    using False that by (metis image_eqI list.set_map)
  ultimately show ?thesis by blast
qed

lemma job_id_mark [simp]: "job_id (mark_cleaned_up j) = job_id j"
  "metadata (mark_cleaned_up j) = metadata j"
  "has_been_cleaned_up (mark_cleaned_up j)"
  by (simp_all add: mark_cleaned_up_def)

lemma clean_pipeline_flags_kept:
  assumes "flags_kept st"
  shows "flags_kept (clean_pipeline rs m t st pl)"
proof -
  have step: "flags_kept (st\<lparr>datastore := put (mark_cleaned_up j) (datastore st),
                              puts := puts st @ [mark_cleaned_up j]\<rparr>)" for j
    using assms unfolding flags_kept_def
    by (auto dest!: put_flagged)
  have frame: "flags_kept (s\<lparr>cleanups := c, num_cleaned := n\<rparr>) = flags_kept s" for s c n
    by (simp add: flags_kept_def)
  show ?thesis
    using assms step
    by (simp add: clean_pipeline_def Let_def frame split: option.splits)
qed

lemma loop_flags_kept:
  "flags_kept st \<Longrightarrow> flags_kept (foldl (clean_pipeline rs m t) st ps)"
  by (induction ps arbitrary: st) (simp_all add: clean_pipeline_flags_kept)

lemma pass_puts:
  "puts (clean_mapreduce e r) =
     map mark_cleaned_up
       (List.map_filter
          (\<lambda>pl. if cleanup_due (current_time_in_millisecs e - r) pl
                then job_mapping e r (pipelineId pl) else None) (root_list e))"
  by (simp add: clean_mapreduce_def Let_def loop_puts)

lemma pass_cleanups:
  "cleanups (clean_mapreduce e r) =
     map pipelineId
       (filter (\<lambda>pl. cleanup_due (current_time_in_millisecs e - r) pl \<and> from_id e (pipelineId pl))
          (root_list e))"
  by (simp add: clean_mapreduce_def Let_def loop_cleanups)

lemma pass_num_cleaned:
  "num_cleaned (clean_mapreduce e r) =
     length
       (filter (\<lambda>pl. cleanup_due (current_time_in_millisecs e - r) pl \<and> from_id e (pipelineId pl))
          (root_list e))"
  by (simp add: clean_mapreduce_def Let_def loop_num_cleaned)

lemma pass_flags_kept: "flags_kept (clean_mapreduce e r)"
proof -
  have "flags_kept \<lparr>datastore = job_models e, puts = [], cleanups = [], num_cleaned = 0,
                 warnings = [], enqueued = []\<rparr>"
    by (simp add: flags_kept_def)
  from loop_flags_kept [OF this]
  show ?thesis
    by (simp add: clean_mapreduce_def Let_def flags_kept_def)
qed

lemma put_origin:
  "j \<in> set (puts (clean_mapreduce e r)) \<Longrightarrow>
     \<exists>pl j0. pl \<in> set (root_list e) \<and> cleanup_due (current_time_in_millisecs e - r) pl
        \<and> job_mapping e r (pipelineId pl) = Some j0 \<and> j = mark_cleaned_up j0"
  by (auto simp: pass_puts List.map_filter_def split: if_splits)

lemma due_is_put:
  "pl \<in> set (root_list e) \<Longrightarrow> cleanup_due (current_time_in_millisecs e - r) pl \<Longrightarrow>
     job_mapping e r (pipelineId pl) = Some j \<Longrightarrow>
     mark_cleaned_up j \<in> set (puts (clean_mapreduce e r))"
  by (force simp: pass_puts List.map_filter_def)

lemma due_is_cleaned:
  "pl \<in> set (root_list e) \<Longrightarrow> cleanup_due (current_time_in_millisecs e - r) pl \<Longrightarrow>
     from_id e (pipelineId pl) \<Longrightarrow> pipelineId pl \<in> set (cleanups (clean_mapreduce e r))"
  by (force simp: pass_cleanups)

lemma not_due_skipped:
  "\<not> cleanup_due t pl \<Longrightarrow> clean_pipeline rs m t st pl = st"
  by (simp add: clean_pipeline_def)

lemma map_filter_distinct:
  assumes "distinct (map pipelineId ps)"
    and "\<And>p j. f p = Some j \<Longrightarrow> j \<in> set js \<and> metadata j k = Some (pipelineId p)"
    and "distinct (map job_id js)"
  shows "distinct (map job_id (List.map_filter f ps))"
  using assms(1)
proof (induction ps)
  case Nil
  then show ?case by (simp add: List.map_filter_simps)
next
  case (Cons p ps)
  then have IH: "distinct (map job_id (List.map_filter f ps))" by simp
  show ?case
  proof (cases "f p")
    case None
    with IH show ?thesis by (simp add: List.map_filter_simps)
  next
    case (Some j)
    have "job_id j \<notin> job_id ` set (List.map_filter f ps)"
    proof
      assume "job_id j \<in> job_id ` set (List.map_filter f ps)"
      then obtain j' q where j': "job_id j' = job_id j" and q: "q \<in> set ps" "f q = Some j'"
        by (auto simp: List.map_filter_def)
      from assms(2) [OF Some] assms(2) [OF q(2)] assms(3) j' have "j = j'"
        by (metis distinct_map inj_on_eq_iff)
      with assms(2) [OF Some] assms(2) [OF q(2)] have "pipelineId p = pipelineId q" by simp
      with q(1) Cons.prems show False by (metis distinct.simps(2) image_eqI list.simps(9) set_map)
    qed
    with IH Some show ?thesis by (simp add: List.map_filter_simps)
  qed
qed

lemma pass_puts_distinct:
  assumes "distinct (map pipelineId (root_list e))" and "distinct (map job_id (job_models e))"
  shows "distinct (map job_id (puts (clean_mapreduce e r)))"
proof -
  have "map job_id (map mark_cleaned_up xs) = map job_id xs" for xs
    by simp
  moreover have "distinct (map job_id (List.map_filter
          (\<lambda>pl. if cleanup_due (current_time_in_millisecs e - r) pl
                then job_mapping e r (pipelineId pl) else None) (root_list e)))"
    by (rule map_filter_distinct [OF assms(1) _ assms(2), where k = "''root_pipeline_id''"])
       (auto dest: job_mapping_sound split: if_splits)
  ultimately show ?thesis by (simp only: pass_puts)
qed

lemma put_member: "j \<in> set (put j store)"
proof (cases "job_id j \<in> set (map job_id store)")
  case True
  then obtain y where "y \<in> set store" "job_id y = job_id j" by auto
  then have "(\<lambda>x. if job_id x = job_id j then j else x) y \<in>
               (\<lambda>x. if job_id x = job_id j then j else x) ` set store"
    by (rule_tac imageI)
  with True \<open>job_id y = job_id j\<close> show ?thesis by (simp add: put_def)
next
  case False
  then show ?thesis by (simp add: put_def)
qed

lemma put_same_key: "x \<in> set (put j store) \<Longrightarrow> job_id x = job_id j \<Longrightarrow> x = j"
  using put_flagged by blast

lemma put_other_key: "x \<in> set (put j store) \<Longrightarrow> job_id x \<noteq> job_id j \<Longrightarrow> x \<in> set store"
  using put_flagged by blast

lemma put_keys: "job_id ` set store \<subseteq> job_id ` set (put j store)"
proof
  fix k assume "k \<in> job_id ` set store"
  then obtain y where y: "y \<in> set store" "k = job_id y" by auto
  show "k \<in> job_id ` set (put j store)"
  proof (cases "job_id j \<in> set (map job_id store)")
    case True
    have "(if job_id y = job_id j then j else y) \<in> set (put j store)"
      using True y(1) by (auto simp: put_def)
    moreover have "job_id (if job_id y = job_id j then j else y) = k"
      using y(2) by simp
    ultimately show ?thesis by (metis imageI)
  next
    case False
    with y show ?thesis by (simp add: put_def)
  qed
qed

lemma clean_pipeline_keys:
  "job_id ` set (datastore st) \<subseteq> job_id ` set (datastore (clean_pipeline rs m t st pl))"
  using put_keys by (auto simp: clean_pipeline_def Let_def split: option.splits)

lemma loop_keys:
  "job_id ` set (datastore st) \<subseteq> job_id ` set (datastore (foldl (clean_pipeline rs m t) st ps))"
proof (induction ps arbitrary: st)
  case Nil
  then show ?case by simp
next
  case (Cons p ps)
  from clean_pipeline_keys [of st rs m t p] Cons.IH [of "clean_pipeline rs m t st p"]
  show ?case by simp
qed

lemma pass_keys:
  "job_id ` set (job_models e) \<subseteq> job_id ` set (datastore (clean_mapreduce e r))"
proof -
  have "datastore (clean_mapreduce e r) =
        datastore (foldl (clean_pipeline (from_id e) (job_mapping e r)
                            (current_time_in_millisecs e - r))
          \<lparr>datastore = job_models e, puts = [], cleanups = [], num_cleaned = 0,
            warnings = [], enqueued = []\<rparr> (root_list e))"
    by (simp add: clean_mapreduce_def Let_def)
  with loop_keys [of "\<lparr>datastore = job_models e, puts = [], cleanups = [], num_cleaned = 0,
            warnings = [], enqueued = []\<rparr>"]
  show ?thesis by simp
qed

lemma due_is_stored:
  assumes "pl \<in> set (root_list e)" and "cleanup_due (current_time_in_millisecs e - r) pl"
    and "job_mapping e r (pipelineId pl) = Some j"
  shows "\<exists>x \<in> set (datastore (clean_mapreduce e r)). job_id x = job_id j"
    and "\<forall>x \<in> set (datastore (clean_mapreduce e r)).
           job_id x = job_id j \<longrightarrow> has_been_cleaned_up x"
proof -
  from job_mapping_sound [OF assms(3)] have "job_id j \<in> job_id ` set (job_models e)"
    by blast
  with pass_keys [of e r] have "job_id j \<in> job_id ` set (datastore (clean_mapreduce e r))"
    by (rule_tac subsetD)
  then obtain y where "y \<in> set (datastore (clean_mapreduce e r))" "job_id j = job_id y"
    by (rule imageE)
  then show "\<exists>x \<in> set (datastore (clean_mapreduce e r)). job_id x = job_id j"
    by (intro bexI [of _ y]) simp_all
  from due_is_put [OF assms]
  have "job_id (mark_cleaned_up j) \<in> job_id ` set (puts (clean_mapreduce e r))"
    by (rule imageI)
  then have "job_id j \<in> job_id ` set (puts (clean_mapreduce e r))"
    by simp
  with pass_flags_kept [of e r]
  show "\<forall>x \<in> set (datastore (clean_mapreduce e r)).
           job_id x = job_id j \<longrightarrow> has_been_cleaned_up x"
    by (simp add: flags_kept_def)
qed

lemma unresolved_not_cleaned:
  assumes "\<not> from_id e pid"
  shows "pid \<notin> set (cleanups (clean_mapreduce e r))"
  using assms by (auto simp: pass_cleanups)

lemmas reap_eval =
  clean_mapreduce_def job_mapping_def pipeline_id_to_job_instance_def get_recent_jobs_def
  add_job_instance_def clean_pipeline_def cleanup_due_def job_started_too_long_ago_def
  have_start_time_def job_definitely_terminated_def put_def mark_cleaned_up_def Let_def
  sample_job_def sample_pline_def sample_env_def MAX_MAPREDUCE_METADATA_RETENTION_MSECS_def
  MAPPER_PARAM_MAX_START_TIME_MSEC_def

subsection \<open>The claims\<close>

text \<open>
  C1 (as amended). A root pipeline whose status is \<open>done\<close> or \<open>aborted\<close>, or whose current
  attempt exceeds its maximum, and that reports no start time or a start time before the
  clock minus the retention: the pass puts the job record correlated with it with
  \<open>has_been_cleaned_up\<close> set to \<open>True\<close>, after the pass the datastore holds a record under
  that job's key and every record it holds under that key carries the flag, and the pass
  calls \<open>cleanup()\<close> on the pipeline when \<open>Pipeline.from_id\<close> finds it. When such a
  pipeline reports a start time that is not before the clock minus the retention, the pass
  leaves it alone. The example after the theorem is the claim as it was written failing:
  a \<open>done\<close> pipeline that started a millisecond ago is neither marked nor cleaned up, and
  an \<open>aborted\<close> one that \<open>from_id\<close> does not find is marked but not cleaned up.
\<close>

theorem C1_conclusive_status_cleaned_unless_recent_start:
  assumes "pl \<in> set (root_list e)" and "job_definitely_terminated pl"
  shows "(startTimeMs pl = None
            \<or> job_started_too_long_ago (current_time_in_millisecs e - r) pl \<longrightarrow>
          (\<forall>j. job_mapping e r (pipelineId pl) = Some j \<longrightarrow>
                 j\<lparr>has_been_cleaned_up := True\<rparr> \<in> set (puts (clean_mapreduce e r)) \<and>
                 (\<exists>x \<in> set (datastore (clean_mapreduce e r)). job_id x = job_id j) \<and>
                 (\<forall>x \<in> set (datastore (clean_mapreduce e r)).
                    job_id x = job_id j \<longrightarrow> has_been_cleaned_up x)) \<and>
          (from_id e (pipelineId pl) \<longrightarrow>
             pipelineId pl \<in> set (cleanups (clean_mapreduce e r)))) \<and>
         (have_start_time pl
            \<and> \<not> job_started_too_long_ago (current_time_in_millisecs e - r) pl \<longrightarrow>
          clean_pipeline (from_id e) (job_mapping e r) (current_time_in_millisecs e - r) st pl
            = st)"
proof -
  have old: "(\<forall>j. job_mapping e r (pipelineId pl) = Some j \<longrightarrow>
                 j\<lparr>has_been_cleaned_up := True\<rparr> \<in> set (puts (clean_mapreduce e r)) \<and>
                 (\<exists>x \<in> set (datastore (clean_mapreduce e r)). job_id x = job_id j) \<and>
                 (\<forall>x \<in> set (datastore (clean_mapreduce e r)).
                    job_id x = job_id j \<longrightarrow> has_been_cleaned_up x)) \<and>
          (from_id e (pipelineId pl) \<longrightarrow>
             pipelineId pl \<in> set (cleanups (clean_mapreduce e r)))"
    if "startTimeMs pl = None
          \<or> job_started_too_long_ago (current_time_in_millisecs e - r) pl"
  proof -
    from that assms(2) have due: "cleanup_due (current_time_in_millisecs e - r) pl"
      by (auto simp: cleanup_due_def have_start_time_def)
    have marked: "j\<lparr>has_been_cleaned_up := True\<rparr> \<in> set (puts (clean_mapreduce e r))"
      if "job_mapping e r (pipelineId pl) = Some j" for j
      using due_is_put [OF assms(1) due that] by (simp add: mark_cleaned_up_def)
    show ?thesis
      using marked due_is_stored [OF assms(1) due] due_is_cleaned [OF assms(1) due] by blast
  qed
  have recent: "clean_pipeline (from_id e) (job_mapping e r)
                  (current_time_in_millisecs e - r) st pl = st"
    if "have_start_time pl
          \<and> \<not> job_started_too_long_ago (current_time_in_millisecs e - r) pl"
  proof -
    from that have "\<not> cleanup_due (current_time_in_millisecs e - r) pl"
      by (simp add: cleanup_due_def)
    then show ?thesis by (simp add: clean_pipeline_def)
  qed
  from old recent show ?thesis by blast
qed

theorem C1_counterexample:
  "job_definitely_terminated (sample_pline ''p1'' ''done'' (Some 999999999)) \<and>
   job_definitely_terminated (sample_pline ''p2'' ''aborted'' None) \<and>
   job_mapping
     (sample_env [sample_pline ''p1'' ''done'' (Some 999999999),
                  sample_pline ''p2'' ''aborted'' None] (\<lambda>pid. pid = ''p1''))
     MAX_MAPREDUCE_METADATA_RETENTION_MSECS ''p1'' = Some (sample_job ''j1'' ''p1'') \<and>
   puts
     (clean_mapreduce
        (sample_env [sample_pline ''p1'' ''done'' (Some 999999999),
                     sample_pline ''p2'' ''aborted'' None] (\<lambda>pid. pid = ''p1''))
        MAX_MAPREDUCE_METADATA_RETENTION_MSECS) =
     [(sample_job ''j2'' ''p2'')\<lparr>has_been_cleaned_up := True\<rparr>] \<and>
   datastore
     (clean_mapreduce
        (sample_env [sample_pline ''p1'' ''done'' (Some 999999999),
                     sample_pline ''p2'' ''aborted'' None] (\<lambda>pid. pid = ''p1''))
        MAX_MAPREDUCE_METADATA_RETENTION_MSECS) =
     [sample_job ''j1'' ''p1'', (sample_job ''j2'' ''p2'')\<lparr>has_been_cleaned_up := True\<rparr>] \<and>
   \<not> has_been_cleaned_up (sample_job ''j1'' ''p1'') \<and>
   cleanups
     (clean_mapreduce
        (sample_env [sample_pline ''p1'' ''done'' (Some 999999999),
                     sample_pline ''p2'' ''aborted'' None] (\<lambda>pid. pid = ''p1''))
        MAX_MAPREDUCE_METADATA_RETENTION_MSECS) = []"
  by (simp add: reap_eval)

theorem C1_witness:
  "sample_pline ''p2'' ''aborted'' None
     \<in> set (root_list (sample_env [sample_pline ''p2'' ''aborted'' None] (\<lambda>_. True))) \<and>
   job_definitely_terminated (sample_pline ''p2'' ''aborted'' None) \<and>
   startTimeMs (sample_pline ''p2'' ''aborted'' None) = None \<and>
   job_mapping (sample_env [sample_pline ''p2'' ''aborted'' None] (\<lambda>_. True))
     MAX_MAPREDUCE_METADATA_RETENTION_MSECS ''p2'' = Some (sample_job ''j2'' ''p2'') \<and>
   \<not> has_been_cleaned_up (sample_job ''j2'' ''p2'') \<and>
   puts (clean_mapreduce (sample_env [sample_pline ''p2'' ''aborted'' None] (\<lambda>_. True))
           MAX_MAPREDUCE_METADATA_RETENTION_MSECS) =
     [\<lparr>job_id = ''j2'', time_started_msec = 300000000, has_been_cleaned_up = True,
       metadata = [''root_pipeline_id'' \<mapsto> ''p2'']\<rparr>] \<and>
   datastore (clean_mapreduce (sample_env [sample_pline ''p2'' ''aborted'' None] (\<lambda>_. True))
           MAX_MAPREDUCE_METADATA_RETENTION_MSECS) =
     [\<lparr>job_id = ''j1'', time_started_msec = 300000000, has_been_cleaned_up = False,
       metadata = [''root_pipeline_id'' \<mapsto> ''p1'']\<rparr>,
      \<lparr>job_id = ''j2'', time_started_msec = 300000000, has_been_cleaned_up = True,
       metadata = [''root_pipeline_id'' \<mapsto> ''p2'']\<rparr>] \<and>
   cleanups (clean_mapreduce (sample_env [sample_pline ''p2'' ''aborted'' None] (\<lambda>_. True))
           MAX_MAPREDUCE_METADATA_RETENTION_MSECS) = [''p2'']"
proof -
  let ?pl = "sample_pline ''p2'' ''aborted'' None"
  let ?e = "sample_env [?pl] (\<lambda>_. True)"
  let ?r = MAX_MAPREDUCE_METADATA_RETENTION_MSECS
  let ?j = "\<lparr>job_id = ''j2'', time_started_msec = 300000000, has_been_cleaned_up = True,
             metadata = [''root_pipeline_id'' \<mapsto> ''p2'']\<rparr>"
  have a: "?pl \<in> set (root_list ?e)" by (simp add: sample_env_def)
  have b: "job_definitely_terminated ?pl"
    by (simp add: job_definitely_terminated_def sample_pline_def)
  have c: "startTimeMs ?pl = None" by (simp add: sample_pline_def)
  have d: "job_mapping ?e ?r ''p2'' = Some (sample_job ''j2'' ''p2'')"
    by (simp add: reap_eval)
  have f: "\<not> has_been_cleaned_up (sample_job ''j2'' ''p2'')" by (simp add: sample_job_def)
  have pid: "pipelineId ?pl = ''p2''" by (simp add: sample_pline_def)
  have res: "from_id ?e ''p2''" by (simp add: sample_env_def)
  have upd: "(sample_job ''j2'' ''p2'')\<lparr>has_been_cleaned_up := True\<rparr> = ?j"
    by (simp add: sample_job_def)
  from C1_conclusive_status_cleaned_unless_recent_start [OF a b, of ?r] c d pid
  have th: "?j \<in> set (puts (clean_mapreduce ?e ?r))"
    "\<forall>x \<in> set (datastore (clean_mapreduce ?e ?r)). job_id x = ''j2'' \<longrightarrow> has_been_cleaned_up x"
    "''p2'' \<in> set (cleanups (clean_mapreduce ?e ?r))"
    using res by (simp_all add: upd sample_job_def)
  have p: "puts (clean_mapreduce ?e ?r) = [?j]"
    by (simp add: reap_eval)
  have ds: "datastore (clean_mapreduce ?e ?r) =
     [\<lparr>job_id = ''j1'', time_started_msec = 300000000, has_been_cleaned_up = False,
       metadata = [''root_pipeline_id'' \<mapsto> ''p1'']\<rparr>, ?j]"
    by (simp add: reap_eval)
  have cs: "cleanups (clean_mapreduce ?e ?r) = [''p2'']"
    by (simp add: reap_eval)
  from a b c d f th p ds cs show ?thesis by simp
qed

text \<open>
  C2. \<open>JobStatusMailerHandler.get\<close> carries the decorator and rejects a caller that is
  neither cron nor a super-administrator; \<open>CronMapreduceCleanupHandler.get\<close> carries no
  decorator, so for the same caller it runs the pass: here the pass marks a job and
  cleans up a pipeline.
\<close>

theorem C2_cleanup_handler_runs_for_any_caller:
  "JobStatusMailerHandler_get (\<lambda>_. []) ''admin@example.com'' []
     \<lparr>headers = Map.empty, is_super_admin = False\<rparr> =
     Inl (UnauthorizedUserException ''You do not have the credentials to access this page.'') \<and>
   CronMapreduceCleanupHandler_get (sample_env [sample_pline ''p2'' ''done'' None] (\<lambda>_. True))
     \<lparr>headers = Map.empty, is_super_admin = False\<rparr> =
     Inr (clean_mapreduce (sample_env [sample_pline ''p2'' ''done'' None] (\<lambda>_. True))
            MAX_MAPREDUCE_METADATA_RETENTION_MSECS) \<and>
   puts (clean_mapreduce (sample_env [sample_pline ''p2'' ''done'' None] (\<lambda>_. True))
            MAX_MAPREDUCE_METADATA_RETENTION_MSECS) = [mark_cleaned_up (sample_job ''j2'' ''p2'')] \<and>
   cleanups (clean_mapreduce (sample_env [sample_pline ''p2'' ''done'' None] (\<lambda>_. True))
            MAX_MAPREDUCE_METADATA_RETENTION_MSECS) = [''p2'']"
proof (intro conjI)
  show "JobStatusMailerHandler_get (\<lambda>_. []) ''admin@example.com'' []
     \<lparr>headers = Map.empty, is_super_admin = False\<rparr> =
     Inl (UnauthorizedUserException ''You do not have the credentials to access this page.'')"
    by (simp add: JobStatusMailerHandler_get_def require_cron_or_superadmin_def)
  show "CronMapreduceCleanupHandler_get (sample_env [sample_pline ''p2'' ''done'' None] (\<lambda>_. True))
     \<lparr>headers = Map.empty, is_super_admin = False\<rparr> =
     Inr (clean_mapreduce (sample_env [sample_pline ''p2'' ''done'' None] (\<lambda>_. True))
            MAX_MAPREDUCE_METADATA_RETENTION_MSECS)"
    by (simp add: CronMapreduceCleanupHandler_get_def)
  show "puts (clean_mapreduce (sample_env [sample_pline ''p2'' ''done'' None] (\<lambda>_. True))
            MAX_MAPREDUCE_METADATA_RETENTION_MSECS) = [mark_cleaned_up (sample_job ''j2'' ''p2'')]"
    by (simp add: reap_eval)
  show "cleanups (clean_mapreduce (sample_env [sample_pline ''p2'' ''done'' None] (\<lambda>_. True))
            MAX_MAPREDUCE_METADATA_RETENTION_MSECS) = [''p2'']"
    by (simp add: reap_eval)
qed

text \<open>
  C3. A job record that already carries the flag is never in the mapping of a pass. Every
  record a pass puts carries the flag, and so does the stored record under its key after
  the pass. Hence a second pass over the datastore that the first one left (with any
  clock, pipelines and retention) puts no record that the first pass put; within one pass
  no record is put twice when the pipeline ids and the job keys are distinct; and with the
  same pipelines and clock the second pass repeats the \<open>cleanup()\<close> calls of the first.
\<close>

theorem C3_cleaned_up_records_not_reconsidered:
  "(\<forall>pid j. job_mapping e r pid = Some j \<longrightarrow>
       j \<in> set (job_models e) \<and> \<not> has_been_cleaned_up j) \<and>
   (\<forall>j \<in> set (puts (clean_mapreduce e r)).
       has_been_cleaned_up j \<and>
       (\<forall>x \<in> set (datastore (clean_mapreduce e r)).
           job_id x = job_id j \<longrightarrow> has_been_cleaned_up x)) \<and>
   (job_models e2 = datastore (clean_mapreduce e r) \<longrightarrow>
       job_id ` set (puts (clean_mapreduce e r))
         \<inter> job_id ` set (puts (clean_mapreduce e2 r2)) = {}) \<and>
   (distinct (map pipelineId (root_list e)) \<and> distinct (map job_id (job_models e)) \<longrightarrow>
       distinct (map job_id (puts (clean_mapreduce e r)))) \<and>
   (root_list e2 = root_list e \<and> from_id e2 = from_id e
      \<and> current_time_in_millisecs e2 = current_time_in_millisecs e \<longrightarrow>
       cleanups (clean_mapreduce e2 r) = cleanups (clean_mapreduce e r))"
proof (intro conjI allI impI ballI)
  fix pid j assume "job_mapping e r pid = Some j"
  from job_mapping_sound [OF this]
  show "j \<in> set (job_models e)" and "\<not> has_been_cleaned_up j" by simp_all
next
  fix j assume j: "j \<in> set (puts (clean_mapreduce e r))"
  with pass_flags_kept [of e r] show "has_been_cleaned_up j"
    by (simp add: flags_kept_def)
  fix x assume "x \<in> set (datastore (clean_mapreduce e r))" "job_id x = job_id j"
  with j pass_flags_kept [of e r] show "has_been_cleaned_up x"
    unfolding flags_kept_def by (metis image_eqI)
next
  assume store: "job_models e2 = datastore (clean_mapreduce e r)"
  show "job_id ` set (puts (clean_mapreduce e r))
         \<inter> job_id ` set (puts (clean_mapreduce e2 r2)) = {}"
  proof (rule ccontr)
    assume "\<not> ?thesis"
    then obtain j1 j2 where j1: "j1 \<in> set (puts (clean_mapreduce e r))"
      and j2: "j2 \<in> set (puts (clean_mapreduce e2 r2))" and eq: "job_id j1 = job_id j2"
      by auto
    from put_origin [OF j2] obtain pl :: pline and j0 where
      m: "job_mapping e2 r2 (pipelineId pl) = Some j0" and j2': "j2 = mark_cleaned_up j0"
      by auto
    from job_mapping_sound [OF m] store
    have in_store: "j0 \<in> set (datastore (clean_mapreduce e r))"
      and unflagged: "\<not> has_been_cleaned_up j0"
      by simp_all
    have "job_id j0 \<in> job_id ` set (puts (clean_mapreduce e r))"
      using j1 eq j2' by (metis image_eqI job_id_mark(1))
    with pass_flags_kept [of e r] in_store have "has_been_cleaned_up j0"
      unfolding flags_kept_def by blast
    with unflagged show False by contradiction
  qed
next
  assume "distinct (map pipelineId (root_list e)) \<and> distinct (map job_id (job_models e))"
  then show "distinct (map job_id (puts (clean_mapreduce e r)))"
    using pass_puts_distinct by blast
next
  assume "root_list e2 = root_list e \<and> from_id e2 = from_id e
      \<and> current_time_in_millisecs e2 = current_time_in_millisecs e"
  then show "cleanups (clean_mapreduce e2 r) = cleanups (clean_mapreduce e r)"
    by (simp add: pass_cleanups)
qed

theorem C3_witness:
  "job_mapping (sample_env [sample_pline ''p2'' ''done'' None] (\<lambda>_. True))
     MAX_MAPREDUCE_METADATA_RETENTION_MSECS ''p2'' = Some (sample_job ''j2'' ''p2'') \<and>
   \<not> has_been_cleaned_up (sample_job ''j2'' ''p2'') \<and>
   puts (clean_mapreduce (sample_env [sample_pline ''p2'' ''done'' None] (\<lambda>_. True))
           MAX_MAPREDUCE_METADATA_RETENTION_MSECS) = [mark_cleaned_up (sample_job ''j2'' ''p2'')] \<and>
   datastore (clean_mapreduce (sample_env [sample_pline ''p2'' ''done'' None] (\<lambda>_. True))
           MAX_MAPREDUCE_METADATA_RETENTION_MSECS) =
     [sample_job ''j1'' ''p1'', mark_cleaned_up (sample_job ''j2'' ''p2'')] \<and>
   puts (clean_mapreduce
          ((sample_env [sample_pline ''p2'' ''done'' None] (\<lambda>_. True))
             \<lparr>job_models :=
                datastore (clean_mapreduce
                  (sample_env [sample_pline ''p2'' ''done'' None] (\<lambda>_. True))
                  MAX_MAPREDUCE_METADATA_RETENTION_MSECS)\<rparr>)
          MAX_MAPREDUCE_METADATA_RETENTION_MSECS) = [] \<and>
   cleanups (clean_mapreduce
          ((sample_env [sample_pline ''p2'' ''done'' None] (\<lambda>_. True))
             \<lparr>job_models :=
                datastore (clean_mapreduce
                  (sample_env [sample_pline ''p2'' ''done'' None] (\<lambda>_. True))
                  MAX_MAPREDUCE_METADATA_RETENTION_MSECS)\<rparr>)
          MAX_MAPREDUCE_METADATA_RETENTION_MSECS) = [''p2'']"
proof -
  let ?e = "sample_env [sample_pline ''p2'' ''done'' None] (\<lambda>_. True)"
  let ?r = MAX_MAPREDUCE_METADATA_RETENTION_MSECS
  let ?e2 = "?e\<lparr>job_models := datastore (clean_mapreduce ?e ?r)\<rparr>"
  note th = C3_cleaned_up_records_not_reconsidered [of ?e ?r ?e2 ?r]
  have m: "job_mapping ?e ?r ''p2'' = Some (sample_job ''j2'' ''p2'')"
    by (simp add: reap_eval)
  from th m have nf: "\<not> has_been_cleaned_up (sample_job ''j2'' ''p2'')" by blast
  have p1: "puts (clean_mapreduce ?e ?r) = [mark_cleaned_up (sample_job ''j2'' ''p2'')]"
    by (simp add: reap_eval)
  have d1: "datastore (clean_mapreduce ?e ?r) =
     [sample_job ''j1'' ''p1'', mark_cleaned_up (sample_job ''j2'' ''p2'')]"
    by (simp add: reap_eval)
  have p2: "puts (clean_mapreduce ?e2 ?r) = []"
    by (simp add: reap_eval)
  have "root_list ?e2 = root_list ?e \<and> from_id ?e2 = from_id ?e
      \<and> current_time_in_millisecs ?e2 = current_time_in_millisecs ?e"
    by simp
  with th have "cleanups (clean_mapreduce ?e2 ?r) = cleanups (clean_mapreduce ?e ?r)"
    by blast
  moreover have "cleanups (clean_mapreduce ?e ?r) = [''p2'']" by (simp add: reap_eval)
  ultimately have c2: "cleanups (clean_mapreduce ?e2 ?r) = [''p2'']" by simp
  from m nf p1 d1 p2 c2 show ?thesis by blast
qed

text \<open>
  C4. At the end of a pass, nothing is enqueued when an unfinished \<open>_JobCleanupManager\<close>
  job exists; otherwise exactly one such job is enqueued, and its parameter
  \<open>max_start_time_msec\<close> is the clock minus the retention, as computed at the start of the
  pass.
\<close>

theorem C4_single_flight_enqueue:
  "enqueued (clean_mapreduce e r) =
     (if do_unfinished_jobs_exist e ''_JobCleanupManager'' then []
      else [(''_JobCleanupManager'',
             [(''max_start_time_msec'', current_time_in_millisecs e - r)])])"
  by (simp add: clean_mapreduce_def Let_def MAPPER_PARAM_MAX_START_TIME_MSEC_def)

text \<open>
  C5 (as amended). A root pipeline that reports a start time before the clock minus the
  retention, whatever its status: the pass puts the job record correlated with it with
  \<open>has_been_cleaned_up\<close> set to \<open>True\<close>, after the pass the datastore holds a record under
  that job's key and every record it holds under that key carries the flag, and the pass
  calls \<open>cleanup()\<close> on the pipeline when \<open>Pipeline.from_id\<close> finds it. The
  example after the theorem is the claim as it was written failing: a running pipeline
  with an old start time that \<open>from_id\<close> does not find gets no \<open>cleanup()\<close> call, while
  its job record is stored with the flag.
\<close>

theorem C5_old_start_time_suffices:
  assumes "pl \<in> set (root_list e)"
    and "job_started_too_long_ago (current_time_in_millisecs e - r) pl"
  shows "(\<forall>j. job_mapping e r (pipelineId pl) = Some j \<longrightarrow>
               j\<lparr>has_been_cleaned_up := True\<rparr> \<in> set (puts (clean_mapreduce e r)) \<and>
               (\<exists>x \<in> set (datastore (clean_mapreduce e r)). job_id x = job_id j) \<and>
               (\<forall>x \<in> set (datastore (clean_mapreduce e r)).
                  job_id x = job_id j \<longrightarrow> has_been_cleaned_up x)) \<and>
         (from_id e (pipelineId pl) \<longrightarrow>
            pipelineId pl \<in> set (cleanups (clean_mapreduce e r)))"
proof -
  from assms(2) have due: "cleanup_due (current_time_in_millisecs e - r) pl"
    by (simp add: cleanup_due_def)
  have marked: "j\<lparr>has_been_cleaned_up := True\<rparr> \<in> set (puts (clean_mapreduce e r))"
    if "job_mapping e r (pipelineId pl) = Some j" for j
    using due_is_put [OF assms(1) due that] by (simp add: mark_cleaned_up_def)
  show ?thesis
    using marked due_is_stored [OF assms(1) due] due_is_cleaned [OF assms(1) due] by blast
qed

theorem C5_counterexample:
  "job_started_too_long_ago (1000000000 - MAX_MAPREDUCE_METADATA_RETENTION_MSECS)
     (sample_pline ''p1'' ''running'' (Some 300000000)) \<and>
   \<not> job_definitely_terminated (sample_pline ''p1'' ''running'' (Some 300000000)) \<and>
   puts
     (clean_mapreduce
        (sample_env [sample_pline ''p1'' ''running'' (Some 300000000)] (\<lambda>_. False))
        MAX_MAPREDUCE_METADATA_RETENTION_MSECS) =
     [(sample_job ''j1'' ''p1'')\<lparr>has_been_cleaned_up := True\<rparr>] \<and>
   datastore
     (clean_mapreduce
        (sample_env [sample_pline ''p1'' ''running'' (Some 300000000)] (\<lambda>_. False))
        MAX_MAPREDUCE_METADATA_RETENTION_MSECS) =
     [(sample_job ''j1'' ''p1'')\<lparr>has_been_cleaned_up := True\<rparr>, sample_job ''j2'' ''p2''] \<and>
   \<not> has_been_cleaned_up (sample_job ''j2'' ''p2'') \<and>
   cleanups
     (clean_mapreduce
        (sample_env [sample_pline ''p1'' ''running'' (Some 300000000)] (\<lambda>_. False))
        MAX_MAPREDUCE_METADATA_RETENTION_MSECS) = []"
  by (simp add: reap_eval)

theorem C5_witness:
  "sample_pline ''p1'' ''running'' (Some 300000000)
     \<in> set (root_list (sample_env [sample_pline ''p1'' ''running'' (Some 300000000)] (\<lambda>_. True))) \<and>
   job_started_too_long_ago
     (current_time_in_millisecs
        (sample_env [sample_pline ''p1'' ''running'' (Some 300000000)] (\<lambda>_. True))
      - MAX_MAPREDUCE_METADATA_RETENTION_MSECS)
     (sample_pline ''p1'' ''running'' (Some 300000000)) \<and>
   \<not> job_definitely_terminated (sample_pline ''p1'' ''running'' (Some 300000000)) \<and>
   job_mapping (sample_env [sample_pline ''p1'' ''running'' (Some 300000000)] (\<lambda>_. True))
     MAX_MAPREDUCE_METADATA_RETENTION_MSECS ''p1'' = Some (sample_job ''j1'' ''p1'') \<and>
   \<not> has_been_cleaned_up (sample_job ''j1'' ''p1'') \<and>
   puts (clean_mapreduce
           (sample_env [sample_pline ''p1'' ''running'' (Some 300000000)] (\<lambda>_. True))
           MAX_MAPREDUCE_METADATA_RETENTION_MSECS) =
     [\<lparr>job_id = ''j1'', time_started_msec = 300000000, has_been_cleaned_up = True,
       metadata = [''root_pipeline_id'' \<mapsto> ''p1'']\<rparr>] \<and>
   datastore (clean_mapreduce
           (sample_env [sample_pline ''p1'' ''running'' (Some 300000000)] (\<lambda>_. True))
           MAX_MAPREDUCE_METADATA_RETENTION_MSECS) =
     [\<lparr>job_id = ''j1'', time_started_msec = 300000000, has_been_cleaned_up = True,
       metadata = [''root_pipeline_id'' \<mapsto> ''p1'']\<rparr>,
      \<lparr>job_id = ''j2'', time_started_msec = 300000000, has_been_cleaned_up = False,
       metadata = [''root_pipeline_id'' \<mapsto> ''p2'']\<rparr>] \<and>
   cleanups (clean_mapreduce
           (sample_env [sample_pline ''p1'' ''running'' (Some 300000000)] (\<lambda>_. True))
           MAX_MAPREDUCE_METADATA_RETENTION_MSECS) = [''p1'']"
proof -
  let ?pl = "sample_pline ''p1'' ''running'' (Some 300000000)"
  let ?e = "sample_env [?pl] (\<lambda>_. True)"
  let ?r = MAX_MAPREDUCE_METADATA_RETENTION_MSECS
  let ?j = "\<lparr>job_id = ''j1'', time_started_msec = 300000000, has_been_cleaned_up = True,
             metadata = [''root_pipeline_id'' \<mapsto> ''p1'']\<rparr>"
  have a: "?pl \<in> set (root_list ?e)" by (simp add: sample_env_def)
  have b: "job_started_too_long_ago (current_time_in_millisecs ?e - ?r) ?pl"
    by (simp add: reap_eval)
  have c: "\<not> job_definitely_terminated ?pl"
    by (simp add: job_definitely_terminated_def sample_pline_def)
  have d: "job_mapping ?e ?r ''p1'' = Some (sample_job ''j1'' ''p1'')"
    by (simp add: reap_eval)
  have f: "\<not> has_been_cleaned_up (sample_job ''j1'' ''p1'')" by (simp add: sample_job_def)
  have pid: "pipelineId ?pl = ''p1''" by (simp add: sample_pline_def)
  have res: "from_id ?e ''p1''" by (simp add: sample_env_def)
  have upd: "(sample_job ''j1'' ''p1'')\<lparr>has_been_cleaned_up := True\<rparr> = ?j"
    by (simp add: sample_job_def)
  from C5_old_start_time_suffices [OF a b] d pid
  have th: "?j \<in> set (puts (clean_mapreduce ?e ?r))"
    "\<forall>x \<in> set (datastore (clean_mapreduce ?e ?r)). job_id x = ''j1'' \<longrightarrow> has_been_cleaned_up x"
    "''p1'' \<in> set (cleanups (clean_mapreduce ?e ?r))"
    using res by (simp_all add: upd sample_job_def)
  have p: "puts (clean_mapreduce ?e ?r) = [?j]"
    by (simp add: reap_eval)
  have ds: "datastore (clean_mapreduce ?e ?r) =
     [?j, \<lparr>job_id = ''j2'', time_started_msec = 300000000, has_been_cleaned_up = False,
           metadata = [''root_pipeline_id'' \<mapsto> ''p2'']\<rparr>]"
    by (simp add: reap_eval)
  have cs: "cleanups (clean_mapreduce ?e ?r) = [''p1'']"
    by (simp add: reap_eval)
  from a b c d f th p ds cs show ?thesis by simp
qed

text \<open>
  C6. A root pipeline with no start time whose status is neither \<open>done\<close> nor \<open>aborted\<close>
  and whose current attempt does not exceed its maximum: the loop body leaves the state
  as it is, the whole pass does what it would do without that entry in the list, and when
  no other entry has its id the pass makes no \<open>cleanup()\<close> call for that id and puts no
  job record whose metadata names it.
\<close>

theorem C6_no_start_time_not_terminated_untouched:
  assumes "startTimeMs pl = None" and "\<not> job_definitely_terminated pl"
  shows "clean_pipeline resolves m t st pl = st \<and>
         clean_mapreduce (e\<lparr>root_list := xs @ pl # ys\<rparr>) r =
           clean_mapreduce (e\<lparr>root_list := xs @ ys\<rparr>) r \<and>
         ((\<forall>q \<in> set (root_list e). pipelineId q = pipelineId pl \<longrightarrow> q = pl) \<longrightarrow>
            pipelineId pl \<notin> set (cleanups (clean_mapreduce e r)) \<and>
            (\<forall>j \<in> set (puts (clean_mapreduce e r)).
               metadata j ''root_pipeline_id'' \<noteq> Some (pipelineId pl)))"
proof -
  from assms have nd: "\<not> cleanup_due t' pl" for t'
    by (simp add: cleanup_due_def job_started_too_long_ago_def have_start_time_def)
  have step: "clean_pipeline resolves m t st pl = st"
    by (rule not_due_skipped [OF nd])
  have same_map: "job_mapping (e\<lparr>root_list := zs\<rparr>) r = job_mapping e r" for zs
    by (simp add: job_mapping_def)
  have removal: "clean_mapreduce (e\<lparr>root_list := xs @ pl # ys\<rparr>) r =
                 clean_mapreduce (e\<lparr>root_list := xs @ ys\<rparr>) r"
    by (simp add: clean_mapreduce_def same_map not_due_skipped [OF nd])
  have frame: "pipelineId pl \<notin> set (cleanups (clean_mapreduce e r)) \<and>
            (\<forall>j \<in> set (puts (clean_mapreduce e r)).
               metadata j ''root_pipeline_id'' \<noteq> Some (pipelineId pl))"
    if uniq: "\<forall>q \<in> set (root_list e). pipelineId q = pipelineId pl \<longrightarrow> q = pl"
  proof (intro conjI ballI)
    show "pipelineId pl \<notin> set (cleanups (clean_mapreduce e r))"
    proof
      assume "pipelineId pl \<in> set (cleanups (clean_mapreduce e r))"
      then obtain q :: pline where "q \<in> set (root_list e)" "pipelineId q = pipelineId pl"
        "cleanup_due (current_time_in_millisecs e - r) q"
        by (auto simp: pass_cleanups)
      with uniq nd show False by auto
    qed
  next
    fix j assume "j \<in> set (puts (clean_mapreduce e r))"
    from put_origin [OF this] obtain q :: pline and j0 where
      q: "q \<in> set (root_list e)" "cleanup_due (current_time_in_millisecs e - r) q"
      and m: "job_mapping e r (pipelineId q) = Some j0" and j: "j = mark_cleaned_up j0"
      by auto
    from job_mapping_sound [OF m] j
    have "metadata j ''root_pipeline_id'' = Some (pipelineId q)" by simp
    moreover from q uniq nd have "pipelineId q \<noteq> pipelineId pl" by auto
    ultimately show "metadata j ''root_pipeline_id'' \<noteq> Some (pipelineId pl)" by simp
  qed
  from step removal frame show ?thesis by blast
qed

theorem C6_witness:
  "startTimeMs (sample_pline ''p1'' ''running'' None) = None \<and>
   \<not> job_definitely_terminated (sample_pline ''p1'' ''running'' None) \<and>
   clean_mapreduce
     (sample_env [sample_pline ''p1'' ''running'' None, sample_pline ''p2'' ''done'' None]
        (\<lambda>_. True)) MAX_MAPREDUCE_METADATA_RETENTION_MSECS =
   clean_mapreduce
     (sample_env [sample_pline ''p2'' ''done'' None] (\<lambda>_. True))
     MAX_MAPREDUCE_METADATA_RETENTION_MSECS \<and>
   ''p1'' \<notin> set (cleanups
     (clean_mapreduce
        (sample_env [sample_pline ''p1'' ''running'' None, sample_pline ''p2'' ''done'' None]
           (\<lambda>_. True)) MAX_MAPREDUCE_METADATA_RETENTION_MSECS)) \<and>
   puts
     (clean_mapreduce
        (sample_env [sample_pline ''p1'' ''running'' None, sample_pline ''p2'' ''done'' None]
           (\<lambda>_. True)) MAX_MAPREDUCE_METADATA_RETENTION_MSECS)
     = [mark_cleaned_up (sample_job ''j2'' ''p2'')]"
proof -
  let ?pl = "sample_pline ''p1'' ''running'' None"
  let ?q = "sample_pline ''p2'' ''done'' None"
  let ?e = "sample_env [?pl, ?q] (\<lambda>_. True)"
  have a: "startTimeMs ?pl = None" by (simp add: sample_pline_def)
  have b: "\<not> job_definitely_terminated ?pl"
    by (simp add: job_definitely_terminated_def sample_pline_def)
  have u: "\<forall>q \<in> set (root_list ?e). pipelineId q = pipelineId ?pl \<longrightarrow> q = ?pl"
    by (simp add: sample_env_def sample_pline_def)
  have l: "?e\<lparr>root_list := [] @ ?pl # [?q]\<rparr> = ?e" "?e\<lparr>root_list := [] @ [?q]\<rparr> = sample_env [?q] (\<lambda>_. True)"
    by (simp_all add: sample_env_def)
  have p: "puts (clean_mapreduce (sample_env [?q] (\<lambda>_. True)) MAX_MAPREDUCE_METADATA_RETENTION_MSECS)
             = [mark_cleaned_up (sample_job ''j2'' ''p2'')]"
    by (simp add: reap_eval)
  have pid: "pipelineId ?pl = ''p1''" by (simp add: sample_pline_def)
  note th = C6_no_start_time_not_terminated_untouched
         [OF a b, where e = ?e and xs = "[]" and ys = "[?q]"
            and r = MAX_MAPREDUCE_METADATA_RETENTION_MSECS]
  from th have eq: "clean_mapreduce ?e MAX_MAPREDUCE_METADATA_RETENTION_MSECS =
      clean_mapreduce (sample_env [?q] (\<lambda>_. True)) MAX_MAPREDUCE_METADATA_RETENTION_MSECS"
    unfolding l by blast
  from th u have nc: "''p1'' \<notin> set (cleanups
      (clean_mapreduce ?e MAX_MAPREDUCE_METADATA_RETENTION_MSECS))"
    unfolding pid by blast
  from p have p': "puts (clean_mapreduce ?e MAX_MAPREDUCE_METADATA_RETENTION_MSECS)
             = [mark_cleaned_up (sample_job ''j2'' ''p2'')]"
    unfolding eq .
  from a b eq nc p' show ?thesis by blast
qed

text \<open>
  C7. For cron or a super-administrator the handler runs its body, and the body appends
  exactly one mail to the outbox. With no stuck job in the past 25 hours the mail is
  the status report with the all-clear body. With \<open>N\<close> stuck jobs the subject is the failure
  alert and the body is the header, which starts with \<open>N\<close> in decimal, followed by one
  detail block for each of the first 50 jobs, that is \<open>min N 50\<close> blocks, in the order of
  the jobs; the block of a job is a separator line followed by the job's run id, key name,
  counters, shard retries, slice retries, last update time and last work item.
\<close>

theorem C7_one_alert_with_capped_details:
  "(headers self ''X-AppEngine-Cron'' \<noteq> None \<or> is_super_admin self \<longrightarrow>
      JobStatusMailerHandler_get get_stuck_jobs admin outbox self =
        Inr (mail_job_status get_stuck_jobs admin outbox)) \<and>
   mail_job_status get_stuck_jobs admin outbox =
     outbox @
     [(admin,
       if get_stuck_jobs 90000000 = []
       then ''MapReduce status report'' else ''MapReduce failure alert'',
       if get_stuck_jobs 90000000 = []
       then ''All MapReduce jobs are running fine.''
       else str_nat (length (get_stuck_jobs 90000000)) @
            '' jobs have failed in the past 25 hours. More information '' @
            ''(about at most 50 jobs; to see more, please check the logs):'' @
            concat (map job_detail (take 50 (get_stuck_jobs 90000000))))] \<and>
   job_detail job =
     [CHR 0x0A] @ ''-----------------------------------'' @ [CHR 0x0A] @
     ''Job with mapreduce ID '' @ mapreduce_id job @ '' (key name '' @ key_name job @
     '') failed. More info:'' @ [CHR 0x0A, CHR 0x0A] @
     ''  counters_map: '' @ counters_map job @ [CHR 0x0A] @
     ''  shard_retries: '' @ retries job @ [CHR 0x0A] @
     ''  slice_retries: '' @ slice_retries job @ [CHR 0x0A] @
     ''  last_update_time: '' @ update_time job @ [CHR 0x0A] @
     ''  last_work_item: '' @ last_work_item job @ [CHR 0x0A] \<and>
   length (mail_job_status get_stuck_jobs admin outbox) = length outbox + 1 \<and>
   length (map job_detail (take 50 (get_stuck_jobs 90000000))) =
     min (length (get_stuck_jobs 90000000)) 50 \<and>
   (\<forall>i < min (length (get_stuck_jobs 90000000)) 50.
      map job_detail (take 50 (get_stuck_jobs 90000000)) ! i =
        job_detail (get_stuck_jobs 90000000 ! i) \<and>
      job_detail (get_stuck_jobs 90000000 ! i) \<noteq> [])"
proof (intro conjI)
  have t: "TWENTY_FIVE_HOURS_IN_MSECS = 90000000"
    by (simp add: TWENTY_FIVE_HOURS_IN_MSECS_def)
  have fifty: "str_nat MAX_JOBS_TO_REPORT_ON = ''50''"
    by (simp add: MAX_JOBS_TO_REPORT_ON_def str_nat.simps digit_char_def)
  show "headers self ''X-AppEngine-Cron'' \<noteq> None \<or> is_super_admin self \<longrightarrow>
      JobStatusMailerHandler_get get_stuck_jobs admin outbox self =
        Inr (mail_job_status get_stuck_jobs admin outbox)"
    by (auto simp: JobStatusMailerHandler_get_def require_cron_or_superadmin_def)
  show eq: "mail_job_status get_stuck_jobs admin outbox =
     outbox @
     [(admin,
       if get_stuck_jobs 90000000 = []
       then ''MapReduce status report'' else ''MapReduce failure alert'',
       if get_stuck_jobs 90000000 = []
       then ''All MapReduce jobs are running fine.''
       else str_nat (length (get_stuck_jobs 90000000)) @
            '' jobs have failed in the past 25 hours. More information '' @
            ''(about at most 50 jobs; to see more, please check the logs):'' @
            concat (map job_detail (take 50 (get_stuck_jobs 90000000))))]"
    by (simp add: mail_job_status_def Let_def foldl_append_concat MAX_JOBS_TO_REPORT_ON_def
          failure_header_def fifty [unfolded MAX_JOBS_TO_REPORT_ON_def] t)
  show d: "job_detail job =
     [CHR 0x0A] @ ''-----------------------------------'' @ [CHR 0x0A] @
     ''Job with mapreduce ID '' @ mapreduce_id job @ '' (key name '' @ key_name job @
     '') failed. More info:'' @ [CHR 0x0A, CHR 0x0A] @
     ''  counters_map: '' @ counters_map job @ [CHR 0x0A] @
     ''  shard_retries: '' @ retries job @ [CHR 0x0A] @
     ''  slice_retries: '' @ slice_retries job @ [CHR 0x0A] @
     ''  last_update_time: '' @ update_time job @ [CHR 0x0A] @
     ''  last_work_item: '' @ last_work_item job @ [CHR 0x0A]" for job
    by (simp add: job_detail_def newline_def separator_line_def)
  show "length (mail_job_status get_stuck_jobs admin outbox) = length outbox + 1"
    unfolding eq by simp
  show "length (map job_detail (take 50 (get_stuck_jobs 90000000))) =
     min (length (get_stuck_jobs 90000000)) 50"
    by simp
  show "\<forall>i < min (length (get_stuck_jobs 90000000)) 50.
      map job_detail (take 50 (get_stuck_jobs 90000000)) ! i =
        job_detail (get_stuck_jobs 90000000 ! i) \<and>
      job_detail (get_stuck_jobs 90000000 ! i) \<noteq> []"
    by (simp add: d)
qed

theorem C7_witness:
  "JobStatusMailerHandler_get (\<lambda>_. []) ''admin@example.com'' []
     \<lparr>headers = [''X-AppEngine-Cron'' \<mapsto> ''true''], is_super_admin = False\<rparr> =
     Inr [(''admin@example.com'', ''MapReduce status report'',
           ''All MapReduce jobs are running fine.'')] \<and>
   JobStatusMailerHandler_get
     (\<lambda>t. if t = 90000000 then [sample_stuck_job, sample_stuck_job\<lparr>key_name := ''job-2''\<rparr>]
           else [])
     ''admin@example.com'' []
     \<lparr>headers = Map.empty, is_super_admin = True\<rparr> =
     Inr [(''admin@example.com'', ''MapReduce failure alert'',
           ''2 jobs have failed in the past 25 hours. More information '' @
           ''(about at most 50 jobs; to see more, please check the logs):'' @
           [CHR 0x0A] @ ''-----------------------------------'' @ [CHR 0x0A] @
           ''Job with mapreduce ID 1581234567 (key name job-1) failed. More info:'' @
           [CHR 0x0A, CHR 0x0A] @
           ''  counters_map: {}'' @ [CHR 0x0A] @
           ''  shard_retries: 0'' @ [CHR 0x0A] @
           ''  slice_retries: 11'' @ [CHR 0x0A] @
           ''  last_update_time: 2016-01-01 00:00:00'' @ [CHR 0x0A] @
           ''  last_work_item: None'' @ [CHR 0x0A] @
           [CHR 0x0A] @ ''-----------------------------------'' @ [CHR 0x0A] @
           ''Job with mapreduce ID 1581234567 (key name job-2) failed. More info:'' @
           [CHR 0x0A, CHR 0x0A] @
           ''  counters_map: {}'' @ [CHR 0x0A] @
           ''  shard_retries: 0'' @ [CHR 0x0A] @
           ''  slice_retries: 11'' @ [CHR 0x0A] @
           ''  last_update_time: 2016-01-01 00:00:00'' @ [CHR 0x0A] @
           ''  last_work_item: None'' @ [CHR 0x0A])] \<and>
   mail_job_status (\<lambda>_. replicate 60 sample_stuck_job) ''admin@example.com'' [] =
     [(''admin@example.com'', ''MapReduce failure alert'',
       ''60 jobs have failed in the past 25 hours. More information '' @
       ''(about at most 50 jobs; to see more, please check the logs):'' @
       concat (replicate 50
         ([CHR 0x0A] @ ''-----------------------------------'' @ [CHR 0x0A] @
          ''Job with mapreduce ID 1581234567 (key name job-1) failed. More info:'' @
          [CHR 0x0A, CHR 0x0A] @
          ''  counters_map: {}'' @ [CHR 0x0A] @
          ''  shard_retries: 0'' @ [CHR 0x0A] @
          ''  slice_retries: 11'' @ [CHR 0x0A] @
          ''  last_update_time: 2016-01-01 00:00:00'' @ [CHR 0x0A] @
          ''  last_work_item: None'' @ [CHR 0x0A])))]"
proof -
  let ?cron = "\<lparr>headers = [''X-AppEngine-Cron'' \<mapsto> ''true''], is_super_admin = False\<rparr>"
  let ?admin = "\<lparr>headers = Map.empty, is_super_admin = True\<rparr>"
  let ?two = "\<lambda>t::int. if t = 90000000
                then [sample_stuck_job, sample_stuck_job\<lparr>key_name := ''job-2''\<rparr>] else []"
  have s60: "str_nat 60 = ''60''" by (simp add: str_nat.simps digit_char_def)
  have s2: "str_nat 2 = ''2''" by (simp add: str_nat.simps digit_char_def)
  have s2': "str_nat (Suc (Suc 0)) = ''2''" using s2 by (simp add: numeral_2_eq_2)
  note none = C7_one_alert_with_capped_details
         [of ?cron "\<lambda>_. []" "''admin@example.com''" "[]" sample_stuck_job]
  note two = C7_one_alert_with_capped_details
         [of ?admin ?two "''admin@example.com''" "[]" sample_stuck_job]
  note two' = C7_one_alert_with_capped_details
         [of ?admin ?two "''admin@example.com''" "[]"
             "sample_stuck_job\<lparr>key_name := ''job-2''\<rparr>"]
  note sixty = C7_one_alert_with_capped_details
         [of ?cron "\<lambda>_. replicate 60 sample_stuck_job" "''admin@example.com''" "[]"
             sample_stuck_job]
  from none have a: "JobStatusMailerHandler_get (\<lambda>_. []) ''admin@example.com'' [] ?cron =
     Inr [(''admin@example.com'', ''MapReduce status report'',
           ''All MapReduce jobs are running fine.'')]"
    by simp
  have b: "JobStatusMailerHandler_get ?two ''admin@example.com'' [] ?admin =
     Inr [(''admin@example.com'', ''MapReduce failure alert'',
           ''2 jobs have failed in the past 25 hours. More information '' @
           ''(about at most 50 jobs; to see more, please check the logs):'' @
           [CHR 0x0A] @ ''-----------------------------------'' @ [CHR 0x0A] @
           ''Job with mapreduce ID 1581234567 (key name job-1) failed. More info:'' @
           [CHR 0x0A, CHR 0x0A] @
           ''  counters_map: {}'' @ [CHR 0x0A] @
           ''  shard_retries: 0'' @ [CHR 0x0A] @
           ''  slice_retries: 11'' @ [CHR 0x0A] @
           ''  last_update_time: 2016-01-01 00:00:00'' @ [CHR 0x0A] @
           ''  last_work_item: None'' @ [CHR 0x0A] @
           [CHR 0x0A] @ ''-----------------------------------'' @ [CHR 0x0A] @
           ''Job with mapreduce ID 1581234567 (key name job-2) failed. More info:'' @
           [CHR 0x0A, CHR 0x0A] @
           ''  counters_map: {}'' @ [CHR 0x0A] @
           ''  shard_retries: 0'' @ [CHR 0x0A] @
           ''  slice_retries: 11'' @ [CHR 0x0A] @
           ''  last_update_time: 2016-01-01 00:00:00'' @ [CHR 0x0A] @
           ''  last_work_item: None'' @ [CHR 0x0A])]"
    by (simp add: JobStatusMailerHandler_get_def require_cron_or_superadmin_def
          mail_job_status_def failure_header_def job_detail_def newline_def
          separator_line_def TWENTY_FIVE_HOURS_IN_MSECS_def MAX_JOBS_TO_REPORT_ON_def
          sample_stuck_job_def str_nat.simps digit_char_def Let_def)
  from two two' b
  have d: "job_detail sample_stuck_job \<noteq> []
           \<and> job_detail (sample_stuck_job\<lparr>key_name := ''job-2''\<rparr>) \<noteq> []"
    by simp
  from sixty have c: "mail_job_status (\<lambda>_. replicate 60 sample_stuck_job)
       ''admin@example.com'' [] =
     [(''admin@example.com'', ''MapReduce failure alert'',
       ''60 jobs have failed in the past 25 hours. More information '' @
       ''(about at most 50 jobs; to see more, please check the logs):'' @
       concat (replicate 50
         ([CHR 0x0A] @ ''-----------------------------------'' @ [CHR 0x0A] @
          ''Job with mapreduce ID 1581234567 (key name job-1) failed. More info:'' @
          [CHR 0x0A, CHR 0x0A] @
          ''  counters_map: {}'' @ [CHR 0x0A] @
          ''  shard_retries: 0'' @ [CHR 0x0A] @
          ''  slice_retries: 11'' @ [CHR 0x0A] @
          ''  last_update_time: 2016-01-01 00:00:00'' @ [CHR 0x0A] @
          ''  last_work_item: None'' @ [CHR 0x0A])))]"
    by (simp add: s60 sample_stuck_job_def)
  from d a b c show ?thesis by (intro conjI)
qed

text \<open>
  C8. For a \<open>MapreduceState\<close> entity the mapper deletes the entity and yields
  \<open>('mr_state_deleted', 1)\<close> once, exactly when its result status is \<open>success\<close> and its
  start time is before \<open>max_start_time_msec\<close>; otherwise it deletes nothing and yields
  \<open>('mr_state_remaining', 1)\<close> once.
\<close>

theorem C8_run_state_deleted_iff_success_and_old:
  "JobCleanupManager_map max_start_time_msec (MapreduceState result_status start_ms) =
     (if result_status = Some ''success'' \<and> start_ms < max_start_time_msec
      then \<lparr>deleted = [MapreduceState result_status start_ms],
            yielded = [(''mr_state_deleted'', 1)]\<rparr>
      else \<lparr>deleted = [], yielded = [(''mr_state_remaining'', 1)]\<rparr>)"
  by (simp add: JobCleanupManager_map_def Let_def)

text \<open>
  C9. A \<open>ShardState\<close> entity that is not deleted is tallied under \<open>mr_state_remaining\<close>,
  the very key of a \<open>MapreduceState\<close> entity that is not deleted, although a deleted shard
  has a key of its own; the reducer then reports both under one key.
\<close>

theorem C9_shard_remaining_shares_run_key:
  "JobCleanupManager_map 100 (ShardState (Some ''failed'') 0) =
     \<lparr>deleted = [], yielded = [(''mr_state_remaining'', 1)]\<rparr> \<and>
   JobCleanupManager_map 100 (MapreduceState (Some ''failed'') 0) =
     \<lparr>deleted = [], yielded = [(''mr_state_remaining'', 1)]\<rparr> \<and>
   JobCleanupManager_map 100 (ShardState (Some ''success'') 0) =
     \<lparr>deleted = [ShardState (Some ''success'') 0], yielded = [(''shard_state_deleted'', 1)]\<rparr> \<and>
   JobCleanupManager_reduce ''mr_state_remaining'' [1, 1] =
     ''Entities remaining count: 2 entities (mr_state_remaining)''"
  by (simp add: JobCleanupManager_map_def JobCleanupManager_reduce_def endswith_def
        str_int_def str_nat.simps digit_char_def Let_def)

text \<open>
  C10. When the loop reaches a pipeline that is due for cleanup and \<open>Pipeline.from_id\<close> does
  not find it, the correlated job record (if any) is put with \<open>has_been_cleaned_up\<close> set
  to \<open>True\<close>: the datastore then holds that flagged record, in place of every record it
  held under the same key or as a new record, every other record is as it was, no
  \<open>cleanup()\<close> call is made and \<open>num_cleaned\<close> stays as it is. Over the whole pass the
  record correlated with such a pipeline is among the records put, with the flag, the
  datastore holds a record under its key and every record under that key carries the flag,
  and the pipeline is not among those cleaned up. \<open>num_cleaned\<close>, which the first log line
  reports, is the number of due pipelines that \<open>from_id\<close> finds, while the number of
  records put is the number of due pipelines with a correlated record.
\<close>

theorem C10_unresolved_pipeline_marked_not_counted:
  "(cleanup_due t pl \<and> \<not> resolves (pipelineId pl) \<longrightarrow>
      (\<forall>j. m (pipelineId pl) = Some j \<longrightarrow>
         puts (clean_pipeline resolves m t st pl) =
           puts st @ [j\<lparr>has_been_cleaned_up := True\<rparr>] \<and>
         datastore (clean_pipeline resolves m t st pl) =
           (if job_id j \<in> job_id ` set (datastore st)
            then map (\<lambda>x. if job_id x = job_id j then j\<lparr>has_been_cleaned_up := True\<rparr> else x)
                   (datastore st)
            else datastore st @ [j\<lparr>has_been_cleaned_up := True\<rparr>]) \<and>
         j\<lparr>has_been_cleaned_up := True\<rparr> \<in> set (datastore (clean_pipeline resolves m t st pl)) \<and>
         (\<forall>x \<in> set (datastore (clean_pipeline resolves m t st pl)).
            job_id x = job_id j \<longrightarrow> has_been_cleaned_up x)) \<and>
      (m (pipelineId pl) = None \<longrightarrow>
         puts (clean_pipeline resolves m t st pl) = puts st \<and>
         datastore (clean_pipeline resolves m t st pl) = datastore st) \<and>
      cleanups (clean_pipeline resolves m t st pl) = cleanups st \<and>
      num_cleaned (clean_pipeline resolves m t st pl) = num_cleaned st) \<and>
   (\<forall>pl \<in> set (root_list e).
      cleanup_due (current_time_in_millisecs e - r) pl \<and> \<not> from_id e (pipelineId pl) \<longrightarrow>
      (\<forall>j. job_mapping e r (pipelineId pl) = Some j \<longrightarrow>
         j\<lparr>has_been_cleaned_up := True\<rparr> \<in> set (puts (clean_mapreduce e r)) \<and>
         (\<exists>x \<in> set (datastore (clean_mapreduce e r)). job_id x = job_id j) \<and>
         (\<forall>x \<in> set (datastore (clean_mapreduce e r)).
            job_id x = job_id j \<longrightarrow> has_been_cleaned_up x)) \<and>
      pipelineId pl \<notin> set (cleanups (clean_mapreduce e r))) \<and>
   num_cleaned (clean_mapreduce e r) =
     length (filter (\<lambda>pl. cleanup_due (current_time_in_millisecs e - r) pl
                            \<and> from_id e (pipelineId pl)) (root_list e)) \<and>
   length (puts (clean_mapreduce e r)) =
     length (filter (\<lambda>pl. cleanup_due (current_time_in_millisecs e - r) pl
                            \<and> job_mapping e r (pipelineId pl) \<noteq> None) (root_list e)) \<and>
   hd (warnings (clean_mapreduce e r)) =
     str_nat (length (filter (\<lambda>pl. cleanup_due (current_time_in_millisecs e - r) pl
                            \<and> from_id e (pipelineId pl)) (root_list e)))
       @ '' MR jobs cleaned up.''"
proof -
  have step: "(\<forall>j. m (pipelineId pl) = Some j \<longrightarrow>
         puts (clean_pipeline resolves m t st pl) =
           puts st @ [j\<lparr>has_been_cleaned_up := True\<rparr>] \<and>
         datastore (clean_pipeline resolves m t st pl) =
           (if job_id j \<in> job_id ` set (datastore st)
            then map (\<lambda>x. if job_id x = job_id j then j\<lparr>has_been_cleaned_up := True\<rparr> else x)
                   (datastore st)
            else datastore st @ [j\<lparr>has_been_cleaned_up := True\<rparr>]) \<and>
         j\<lparr>has_been_cleaned_up := True\<rparr> \<in> set (datastore (clean_pipeline resolves m t st pl)) \<and>
         (\<forall>x \<in> set (datastore (clean_pipeline resolves m t st pl)).
            job_id x = job_id j \<longrightarrow> has_been_cleaned_up x)) \<and>
      (m (pipelineId pl) = None \<longrightarrow>
         puts (clean_pipeline resolves m t st pl) = puts st \<and>
         datastore (clean_pipeline resolves m t st pl) = datastore st) \<and>
      cleanups (clean_pipeline resolves m t st pl) = cleanups st \<and>
      num_cleaned (clean_pipeline resolves m t st pl) = num_cleaned st"
    (is ?step) if a: "cleanup_due t pl \<and> \<not> resolves (pipelineId pl)"
  proof (intro conjI allI impI)
    fix j assume j: "m (pipelineId pl) = Some j"
    let ?j = "j\<lparr>has_been_cleaned_up := True\<rparr>"
    from a j show "puts (clean_pipeline resolves m t st pl) = puts st @ [?j]"
      by (simp add: clean_pipeline_puts mark_cleaned_up_def)
    from a j have ds: "datastore (clean_pipeline resolves m t st pl) = put ?j (datastore st)"
      by (simp add: clean_pipeline_def Let_def mark_cleaned_up_def)
    then show "datastore (clean_pipeline resolves m t st pl) =
           (if job_id j \<in> job_id ` set (datastore st)
            then map (\<lambda>x. if job_id x = job_id j then ?j else x) (datastore st)
            else datastore st @ [?j])"
      by (simp add: put_def)
    show "?j \<in> set (datastore (clean_pipeline resolves m t st pl))"
      unfolding ds by (rule put_member)
    show "\<forall>x \<in> set (datastore (clean_pipeline resolves m t st pl)).
            job_id x = job_id j \<longrightarrow> has_been_cleaned_up x"
    proof (intro ballI impI)
      fix x assume "x \<in> set (datastore (clean_pipeline resolves m t st pl))"
        and "job_id x = job_id j"
      then have "x = ?j" using put_same_key [of x ?j "datastore st"] ds by simp
      then show "has_been_cleaned_up x" by simp
    qed
  next
    assume n: "m (pipelineId pl) = None"
    from a n show "puts (clean_pipeline resolves m t st pl) = puts st"
      by (simp add: clean_pipeline_puts)
    from a n show "datastore (clean_pipeline resolves m t st pl) = datastore st"
      by (simp add: clean_pipeline_def Let_def)
  next
    from a show "cleanups (clean_pipeline resolves m t st pl) = cleanups st"
      by (simp add: clean_pipeline_cleanups)
    from a show "num_cleaned (clean_pipeline resolves m t st pl) = num_cleaned st"
      by (simp add: clean_pipeline_num_cleaned)
  qed
  have marked: "j\<lparr>has_been_cleaned_up := True\<rparr> \<in> set (puts (clean_mapreduce e r))"
    if "p \<in> set (root_list e)" and "cleanup_due (current_time_in_millisecs e - r) p"
      and "job_mapping e r (pipelineId p) = Some j" for p j
    using due_is_put [OF that] by (simp add: mark_cleaned_up_def)
  have pass: "\<forall>pl \<in> set (root_list e).
      cleanup_due (current_time_in_millisecs e - r) pl \<and> \<not> from_id e (pipelineId pl) \<longrightarrow>
      (\<forall>j. job_mapping e r (pipelineId pl) = Some j \<longrightarrow>
         j\<lparr>has_been_cleaned_up := True\<rparr> \<in> set (puts (clean_mapreduce e r)) \<and>
         (\<exists>x \<in> set (datastore (clean_mapreduce e r)). job_id x = job_id j) \<and>
         (\<forall>x \<in> set (datastore (clean_mapreduce e r)).
            job_id x = job_id j \<longrightarrow> has_been_cleaned_up x)) \<and>
      pipelineId pl \<notin> set (cleanups (clean_mapreduce e r))"
    using marked due_is_stored unresolved_not_cleaned by blast
  have nc: "num_cleaned (clean_mapreduce e r) =
     length (filter (\<lambda>pl. cleanup_due (current_time_in_millisecs e - r) pl
                            \<and> from_id e (pipelineId pl)) (root_list e))"
    by (rule pass_num_cleaned)
  have "(\<lambda>pl. (if cleanup_due (current_time_in_millisecs e - r) pl
                 then job_mapping e r (pipelineId pl) else None) \<noteq> None) =
        (\<lambda>pl. cleanup_due (current_time_in_millisecs e - r) pl
                 \<and> job_mapping e r (pipelineId pl) \<noteq> None)"
    by auto
  moreover have "length (puts (clean_mapreduce e r)) =
      length (filter (\<lambda>pl. (if cleanup_due (current_time_in_millisecs e - r) pl
                 then job_mapping e r (pipelineId pl) else None) \<noteq> None) (root_list e))"
    unfolding pass_puts List.map_filter_def by simp
  ultimately have np: "length (puts (clean_mapreduce e r)) =
     length (filter (\<lambda>pl. cleanup_due (current_time_in_millisecs e - r) pl
                            \<and> job_mapping e r (pipelineId pl) \<noteq> None) (root_list e))"
    by simp
  have w: "hd (warnings (clean_mapreduce e r)) =
     str_nat (length (filter (\<lambda>pl. cleanup_due (current_time_in_millisecs e - r) pl
                            \<and> from_id e (pipelineId pl)) (root_list e)))
       @ '' MR jobs cleaned up.''"
    by (simp add: clean_mapreduce_def Let_def loop_num_cleaned)
  have step': "cleanup_due t pl \<and> \<not> resolves (pipelineId pl) \<longrightarrow> ?step"
    by (rule impI) (rule step)
  show ?thesis
    by (rule conjI [OF step' conjI [OF pass conjI [OF nc conjI [OF np w]]]])
qed

theorem C10_witness:
  "cleanup_due (1000000000 - MAX_MAPREDUCE_METADATA_RETENTION_MSECS)
     (sample_pline ''p1'' ''done'' None) \<and>
   job_mapping (sample_env [sample_pline ''p1'' ''done'' None] (\<lambda>_. False))
     MAX_MAPREDUCE_METADATA_RETENTION_MSECS ''p1'' = Some (sample_job ''j1'' ''p1'') \<and>
   \<not> has_been_cleaned_up (sample_job ''j1'' ''p1'') \<and>
   clean_pipeline (\<lambda>_. False) [''p1'' \<mapsto> sample_job ''j1'' ''p1'']
     (1000000000 - MAX_MAPREDUCE_METADATA_RETENTION_MSECS)
     \<lparr>datastore = [sample_job ''j1'' ''p1'', sample_job ''j2'' ''p2''], puts = [],
       cleanups = [], num_cleaned = 0, warnings = [], enqueued = []\<rparr>
     (sample_pline ''p1'' ''done'' None) =
     \<lparr>datastore =
        [\<lparr>job_id = ''j1'', time_started_msec = 300000000, has_been_cleaned_up = True,
          metadata = [''root_pipeline_id'' \<mapsto> ''p1'']\<rparr>,
         \<lparr>job_id = ''j2'', time_started_msec = 300000000, has_been_cleaned_up = False,
          metadata = [''root_pipeline_id'' \<mapsto> ''p2'']\<rparr>],
      puts =
        [\<lparr>job_id = ''j1'', time_started_msec = 300000000, has_been_cleaned_up = True,
          metadata = [''root_pipeline_id'' \<mapsto> ''p1'']\<rparr>],
      cleanups = [], num_cleaned = 0, warnings = [], enqueued = []\<rparr> \<and>
   puts (clean_mapreduce (sample_env [sample_pline ''p1'' ''done'' None] (\<lambda>_. False))
           MAX_MAPREDUCE_METADATA_RETENTION_MSECS) =
     [\<lparr>job_id = ''j1'', time_started_msec = 300000000, has_been_cleaned_up = True,
       metadata = [''root_pipeline_id'' \<mapsto> ''p1'']\<rparr>] \<and>
   datastore (clean_mapreduce (sample_env [sample_pline ''p1'' ''done'' None] (\<lambda>_. False))
           MAX_MAPREDUCE_METADATA_RETENTION_MSECS) =
     [\<lparr>job_id = ''j1'', time_started_msec = 300000000, has_been_cleaned_up = True,
       metadata = [''root_pipeline_id'' \<mapsto> ''p1'']\<rparr>,
      \<lparr>job_id = ''j2'', time_started_msec = 300000000, has_been_cleaned_up = False,
       metadata = [''root_pipeline_id'' \<mapsto> ''p2'']\<rparr>] \<and>
   num_cleaned (clean_mapreduce (sample_env [sample_pline ''p1'' ''done'' None] (\<lambda>_. False))
                  MAX_MAPREDUCE_METADATA_RETENTION_MSECS) = 0 \<and>
   cleanups (clean_mapreduce (sample_env [sample_pline ''p1'' ''done'' None] (\<lambda>_. False))
                  MAX_MAPREDUCE_METADATA_RETENTION_MSECS) = [] \<and>
   hd (warnings (clean_mapreduce (sample_env [sample_pline ''p1'' ''done'' None] (\<lambda>_. False))
                  MAX_MAPREDUCE_METADATA_RETENTION_MSECS)) = ''0 MR jobs cleaned up.''"
proof -
  let ?pl = "sample_pline ''p1'' ''done'' None"
  let ?e = "sample_env [?pl] (\<lambda>_. False)"
  let ?r = MAX_MAPREDUCE_METADATA_RETENTION_MSECS
  let ?st = "\<lparr>datastore = [sample_job ''j1'' ''p1'', sample_job ''j2'' ''p2''], puts = [],
       cleanups = [], num_cleaned = 0, warnings = [], enqueued = []\<rparr>"
  let ?j1 = "\<lparr>job_id = ''j1'', time_started_msec = 300000000, has_been_cleaned_up = True,
          metadata = [''root_pipeline_id'' \<mapsto> ''p1'']\<rparr>"
  let ?j2 = "\<lparr>job_id = ''j2'', time_started_msec = 300000000, has_been_cleaned_up = False,
          metadata = [''root_pipeline_id'' \<mapsto> ''p2'']\<rparr>"
  have due: "cleanup_due (1000000000 - ?r) ?pl" by (simp add: reap_eval)
  have d: "job_mapping ?e ?r ''p1'' = Some (sample_job ''j1'' ''p1'')"
    by (simp add: reap_eval)
  have f: "\<not> has_been_cleaned_up (sample_job ''j1'' ''p1'')" by (simp add: sample_job_def)
  have pid: "pipelineId ?pl = ''p1''" by (simp add: sample_pline_def)
  have upd: "(sample_job ''j1'' ''p1'')\<lparr>has_been_cleaned_up := True\<rparr> = ?j1"
    by (simp add: sample_job_def)
  note th = C10_unresolved_pipeline_marked_not_counted
    [of "1000000000 - ?r" ?pl "\<lambda>_. False" "[''p1'' \<mapsto> sample_job ''j1'' ''p1'']" ?st ?e ?r]
  from th due pid
  have s1: "puts (clean_pipeline (\<lambda>_. False) [''p1'' \<mapsto> sample_job ''j1'' ''p1'']
                    (1000000000 - ?r) ?st ?pl) = [?j1]"
    and s2: "?j1 \<in> set (datastore (clean_pipeline (\<lambda>_. False)
                    [''p1'' \<mapsto> sample_job ''j1'' ''p1''] (1000000000 - ?r) ?st ?pl))"
    by (simp_all add: upd)
  from th have nc: "num_cleaned (clean_mapreduce ?e ?r) = 0"
    by (simp add: reap_eval)
  have step: "clean_pipeline (\<lambda>_. False) [''p1'' \<mapsto> sample_job ''j1'' ''p1'']
                 (1000000000 - ?r) ?st ?pl =
     \<lparr>datastore = [?j1, ?j2], puts = [?j1],
      cleanups = [], num_cleaned = 0, warnings = [], enqueued = []\<rparr>"
    by (simp add: reap_eval)
  have p: "puts (clean_mapreduce ?e ?r) = [?j1]" by (simp add: reap_eval)
  have ds: "datastore (clean_mapreduce ?e ?r) = [?j1, ?j2]" by (simp add: reap_eval)
  have cs: "cleanups (clean_mapreduce ?e ?r) = []" by (simp add: reap_eval)
  have w: "hd (warnings (clean_mapreduce ?e ?r)) = ''0 MR jobs cleaned up.''"
    by (simp add: reap_eval str_nat.simps digit_char_def)
  from due d f s1 s2 nc step p ds cs w show ?thesis by simp
qed

end
